theory Spec2Isabelle
  imports Complex_Main
begin

section \<open>Text\<close>

text \<open>
  A Python \<open>str\<close> is a sequence of Unicode code points, so text is a list of
  natural numbers. \<open>cps\<close> turns a literal of the source into such a list.
  The character classes below are the ones CPython 3.11 (Unicode 14.0.0) uses for
  \<open>str.isdecimal\<close> (and \<open>\d\<close> of \<open>re\<close>), \<open>str.isdigit\<close> and
  \<open>str.isspace\<close> (and \<open>\s\<close>, \<open>str.strip\<close>).
\<close>

type_synonym pystr = "nat list"

definition cps :: "string \<Rightarrow> pystr" where
  "cps s = map of_char s"

text \<open>Every decimal digit block has ten code points, with values 0 to 9 in order.\<close>

definition decimal_starts :: "nat list" where
  "decimal_starts =
    [48, 1632, 1776, 1984, 2406, 2534, 2662, 2790, 2918, 3046, 3174, 3302, 3430, 3558,
     3664, 3792, 3872, 4160, 4240, 6112, 6160, 6470, 6608, 6784, 6800, 6992, 7088, 7232,
     7248, 42528, 43216, 43264, 43472, 43504, 43600, 44016, 65296, 66720, 68912, 69734,
     69872, 69942, 70096, 70384, 70736, 70864, 71248, 71360, 71472, 71904, 72016, 72784,
     73040, 73120, 92768, 92864, 93008, 120782, 120792, 120802, 120812, 120822, 123200,
     123632, 125264, 130032]"

definition decimal_of :: "nat \<Rightarrow> nat option" where
  "decimal_of c =
     map_option (\<lambda>s. c - s) (find (\<lambda>s. s \<le> c \<and> c < s + 10) decimal_starts)"

definition is_decimal :: "nat \<Rightarrow> bool" where
  "is_decimal c = (decimal_of c \<noteq> None)"

text \<open>Code points that \<open>isdigit\<close> accepts although they are no decimal digits.\<close>

definition digit_only_ranges :: "(nat \<times> nat) list" where
  "digit_only_ranges =
    [(178, 179), (185, 185), (4969, 4977), (6618, 6618), (8304, 8304), (8308, 8313),
     (8320, 8329), (9312, 9320), (9332, 9340), (9352, 9360), (9450, 9450), (9461, 9469),
     (9471, 9471), (10102, 10110), (10112, 10120), (10122, 10130), (68160, 68163),
     (69216, 69224), (69714, 69722), (127232, 127242)]"

definition space_ranges :: "(nat \<times> nat) list" where
  "space_ranges =
    [(9, 13), (28, 32), (133, 133), (160, 160), (5760, 5760), (8192, 8202), (8232, 8233),
     (8239, 8239), (8287, 8287), (12288, 12288)]"

definition in_ranges :: "(nat \<times> nat) list \<Rightarrow> nat \<Rightarrow> bool" where
  "in_ranges rs c = list_ex (\<lambda>r. fst r \<le> c \<and> c \<le> snd r) rs"

definition is_digit :: "nat \<Rightarrow> bool" where
  "is_digit c = (is_decimal c \<or> in_ranges digit_only_ranges c)"

definition is_space :: "nat \<Rightarrow> bool" where
  "is_space c = in_ranges space_ranges c"

definition isdigit :: "pystr \<Rightarrow> bool" where
  \<comment> \<open>\<open>str.isdigit()\<close>: non-empty and every character a digit\<close>
  "isdigit s = (s \<noteq> [] \<and> list_all is_digit s)"

definition strip :: "pystr \<Rightarrow> pystr" where
  \<comment> \<open>\<open>str.strip()\<close>\<close>
  "strip s = rev (dropWhile is_space (rev (dropWhile is_space s)))"

definition decimal_value :: "nat \<Rightarrow> nat" where
  "decimal_value c = (case decimal_of c of None \<Rightarrow> 0 | Some d \<Rightarrow> d)"

definition digits_value :: "pystr \<Rightarrow> nat" where
  \<comment> \<open>the number a run of decimal digits denotes\<close>
  "digits_value ds = foldl (\<lambda>a c. 10 * a + decimal_value c) 0 ds"

text \<open>Exceptions of the source, as values.\<close>

datatype exn =
    AttributeError
  | ValueError
  | KeyError
  | IndexError
  | TypeError
  | OverflowError
  | RequestException
  | JSONDecodeError

text \<open>
  A Python \<open>float\<close> is a double: a finite value, an infinity or a nan. A finite double
  is written with the rational number it stands for (the sign of a zero is not kept).
  \<open>to_double\<close> rounds a rational to the nearest double, ties to the even significand, as
  \<open>float\<close> of a decimal text, the true division of two integers and the division of two
  doubles all do: a double has 53 significant bits, its last bit is worth at least
  \<open>2 ^ -1074\<close>, and a number that would round to \<open>2 ^ 1024\<close> or beyond is infinite.
\<close>

datatype pyfloat = Finite rat | PosInf | NegInf | NaN

fun bit_length :: "nat \<Rightarrow> nat" where
  "bit_length n = (if n = 0 then 0 else Suc (bit_length (n div 2)))"

declare bit_length.simps [simp del]

definition pow2 :: "int \<Rightarrow> rat" where
  "pow2 e = (if 0 \<le> e then 2 ^ nat e else 1 / 2 ^ nat (- e))"

definition floor_log2 :: "rat \<Rightarrow> int" where
  \<comment> \<open>for \<open>0 < a\<close>, the \<open>e\<close> with \<open>2 ^ e \<le> a < 2 ^ (e + 1)\<close>\<close>
  "floor_log2 a =
     (if 1 \<le> a then int (bit_length (nat \<lfloor>a\<rfloor>)) - 1
      else - int (bit_length (nat (\<lceil>1 / a\<rceil> - 1))))"

definition round_half_even :: "rat \<Rightarrow> int" where
  "round_half_even x =
     (let f = \<lfloor>x\<rfloor>; d = x - of_int f in
      if d < 1 / 2 then f else if 1 / 2 < d then f + 1 else if even f then f else f + 1)"

definition double_threshold :: rat where
  \<comment> \<open>half way between the greatest double and \<open>2 ^ 1024\<close>\<close>
  "double_threshold = 2 ^ 1024 - 2 ^ 970"

definition to_double :: "rat \<Rightarrow> pyfloat" where
  "to_double x =
     (if x = 0 then Finite 0
      else if double_threshold \<le> \<bar>x\<bar> then (if 0 < x then PosInf else NegInf)
      else (let q = max (floor_log2 \<bar>x\<bar> - 52) (- 1074);
                y = of_int (round_half_even (\<bar>x\<bar> / pow2 q)) * pow2 q
            in Finite (if 0 < x then y else - y)))"

fun nonneg :: "pyfloat \<Rightarrow> bool" where
  \<comment> \<open>\<open>f >= 0\<close>\<close>
  "nonneg (Finite x) = (0 \<le> x)"
| "nonneg PosInf = True"
| "nonneg NegInf = False"
| "nonneg NaN = False"

fun is_finite :: "pyfloat \<Rightarrow> bool" where
  \<comment> \<open>\<open>math.isfinite(f)\<close>\<close>
  "is_finite (Finite x) = True"
| "is_finite f = False"

definition int_of_text :: "pystr \<Rightarrow> exn + int" where
  \<comment> \<open>\<open>int(s)\<close> for a text that passed \<open>isdigit\<close> (so it has no sign, blank or
      underscore): it is read when all its characters are decimal digits, and is an
      invalid literal otherwise\<close>
  "int_of_text s =
     (if s \<noteq> [] \<and> list_all is_decimal s then Inr (int (digits_value s))
      else Inl ValueError)"

definition float_of_text :: "pystr \<Rightarrow> exn + pyfloat" where
  \<comment> \<open>\<open>float(s)\<close> for a text of decimal digits and full stops, which is all that is
      left of a match of \<open>[\d,.]+\<close> once the commas are removed: the number the
      text denotes, rounded to a double\<close>
  "float_of_text s =
     (let ip = takeWhile is_decimal s; rest = dropWhile is_decimal s in
      case rest of
        [] \<Rightarrow> if ip = [] then Inl ValueError else Inr (to_double (of_nat (digits_value ip)))
      | c # fp \<Rightarrow>
          if c = 46 \<and> list_all is_decimal fp \<and> (ip \<noteq> [] \<or> fp \<noteq> [])
          then Inr (to_double
                 (of_nat (digits_value ip) + of_nat (digits_value fp) / 10 ^ length fp))
          else Inl ValueError)"

definition in_price_class :: "nat \<Rightarrow> bool" where
  \<comment> \<open>the character class \<open>[\d,.]\<close>\<close>
  "in_price_class c = (is_decimal c \<or> c = 44 \<or> c = 46)"

definition search_price_run :: "pystr \<Rightarrow> pystr option" where
  \<comment> \<open>\<open>re.search(r"[\d,.]+", t)\<close>: the leftmost, longest run, or no match\<close>
  "search_price_run t =
     (let r = takeWhile in_price_class (dropWhile (\<lambda>c. \<not> in_price_class c) t)
      in if r = [] then None else Some r)"

definition remove_commas :: "pystr \<Rightarrow> pystr" where
  \<comment> \<open>\<open>.replace(",", "")\<close>\<close>
  "remove_commas s = filter (\<lambda>c. c \<noteq> 44) s"

definition parse_price :: "pystr \<Rightarrow> exn + pyfloat" where
  \<comment> \<open>\<open>float(re.search(r"[\d,.]+", t).group().replace(",", ""))\<close>; \<open>.group()\<close> of
      no match is an AttributeError\<close>
  "parse_price t =
     (case search_price_run t of
        None \<Rightarrow> Inl AttributeError
      | Some r \<Rightarrow> float_of_text (remove_commas r))"


section \<open>Parsed documents\<close>

text \<open>
  A document as BeautifulSoup hands it to the source: elements with a tag name, their
  attributes (as written in the markup) and children, and the strings \<open>get_text\<close>
  collects. Tag and attribute names are only ever compared with literals of the source.
  The \<open>BeautifulSoup\<close> object itself is the root element.
\<close>

datatype node = Elem string "(string \<times> pystr) list" "node list" | Text pystr

fun strings :: "node \<Rightarrow> pystr list" where
  "strings (Text t) = [t]"
| "strings (Elem tg ats cs) = concat (map strings cs)"

definition get_text :: "node \<Rightarrow> pystr" where
  \<comment> \<open>\<open>el.get_text()\<close> and \<open>el.text\<close>\<close>
  "get_text n = concat (strings n)"

definition get_text_strip :: "node \<Rightarrow> pystr" where
  \<comment> \<open>\<open>el.get_text(strip=True)\<close>: every string stripped, the empty ones left out\<close>
  "get_text_strip n = concat (filter (\<lambda>t. t \<noteq> []) (map strip (strings n)))"

fun is_elem :: "node \<Rightarrow> bool" where
  "is_elem (Elem tg ats cs) = True"
| "is_elem (Text t) = False"

fun descendants :: "node \<Rightarrow> node list" where
  \<comment> \<open>the elements below a node, in document order\<close>
  "descendants (Text t) = []"
| "descendants (Elem tg ats cs) =
     concat (map (\<lambda>c. (if is_elem c then [c] else []) @ descendants c) cs)"

fun tag_of :: "node \<Rightarrow> string" where
  "tag_of (Elem tg ats cs) = tg"
| "tag_of (Text t) = []"

fun attrs_of :: "node \<Rightarrow> (string \<times> pystr) list" where
  "attrs_of (Elem tg ats cs) = ats"
| "attrs_of (Text t) = []"

definition find_all :: "string \<Rightarrow> node \<Rightarrow> node list" where
  \<comment> \<open>\<open>el.find_all("a")\<close>\<close>
  "find_all tg n = filter (\<lambda>d. tag_of d = tg) (descendants n)"

definition attr_get :: "node \<Rightarrow> string \<Rightarrow> pystr option" where
  "attr_get n k = map_of (attrs_of n) k"

definition attr_item :: "node \<Rightarrow> string \<Rightarrow> exn + pystr" where
  \<comment> \<open>\<open>el["src"]\<close>\<close>
  "attr_item n k = (case attr_get n k of None \<Rightarrow> Inl KeyError | Some v \<Rightarrow> Inr v)"

function tokens :: "pystr \<Rightarrow> pystr list" where
  \<comment> \<open>the maximal runs of non-blank characters; BeautifulSoup keeps a \<open>class\<close>
      attribute as this list\<close>
  "tokens s =
     (let r = dropWhile is_space s in
      if r = [] then []
      else takeWhile (\<lambda>c. \<not> is_space c) r # tokens (dropWhile (\<lambda>c. \<not> is_space c) r))"
  by pat_completeness auto
termination
proof (relation "measure length")
  show "wf (measure length)" by simp
next
  fix s r :: pystr
  assume r: "r = dropWhile is_space s" and ne: "r \<noteq> []"
  from ne obtain c cs where rc: "r = c # cs" by (cases r) auto
  have "dropWhile is_space s \<noteq> []" using ne r by simp
  then have "\<not> is_space (hd (dropWhile is_space s))"
    by (rule hd_dropWhile)
  then have nsp: "\<not> is_space (hd r)" unfolding r .
  have "\<not> is_space c" using nsp unfolding rc by simp
  then have "length (dropWhile (\<lambda>c. \<not> is_space c) r) < length r"
    using rc by (simp add: le_imp_less_Suc length_dropWhile_le)
  also have "length r \<le> length s" using r by (simp add: length_dropWhile_le)
  finally show "(dropWhile (\<lambda>c. \<not> is_space c) r, s) \<in> measure length" by simp
qed

declare tokens.simps [simp del]

definition classes :: "node \<Rightarrow> pystr list option" where
  \<comment> \<open>\<open>el.get("class")\<close>\<close>
  "classes n = map_option tokens (attr_get n ''class'')"

text \<open>
  The selectors the source writes are lists of alternatives, each a tag name, a class
  and an attribute that must be present, any of which may be left out. A selector is
  used through the elements it selects below a node, in document order; the selectors a
  caller of the Generic adapter supplies are such functions.
\<close>

datatype compound = Compound "string option" "pystr option" "string option"

fun matches :: "compound \<Rightarrow> node \<Rightarrow> bool" where
  "matches (Compound tg cl ak) n =
     ((case tg of None \<Rightarrow> True | Some t \<Rightarrow> tag_of n = t) \<and>
      (case cl of None \<Rightarrow> True
       | Some c \<Rightarrow> (case classes n of None \<Rightarrow> False | Some ts \<Rightarrow> c \<in> set ts)) \<and>
      (case ak of None \<Rightarrow> True | Some a \<Rightarrow> attr_get n a \<noteq> None))"

type_synonym selector = "node \<Rightarrow> node list"

definition css :: "compound list \<Rightarrow> selector" where
  \<comment> \<open>\<open>el.select(...)\<close>\<close>
  "css alts n = filter (\<lambda>d. list_ex (\<lambda>c. matches c d) alts) (descendants n)"

definition select_one :: "selector \<Rightarrow> node \<Rightarrow> node option" where
  \<comment> \<open>\<open>el.select_one(...)\<close>\<close>
  "select_one sel n = (case sel n of [] \<Rightarrow> None | d # ds \<Rightarrow> Some d)"

definition css_product :: selector where
  \<comment> \<open>\<open>li.product\<close>\<close>
  "css_product = css [Compound (Some ''li'') (Some (cps ''product'')) None]"

definition css_title :: selector where
  \<comment> \<open>\<open>.woocommerce-loop-product__title, h2.woocommerce-loop-product__title\<close>\<close>
  "css_title =
     css [Compound None (Some (cps ''woocommerce-loop-product__title'')) None,
          Compound (Some ''h2'') (Some (cps ''woocommerce-loop-product__title'')) None]"

definition css_price :: selector where
  \<comment> \<open>\<open>span.price\<close>\<close>
  "css_price = css [Compound (Some ''span'') (Some (cps ''price'')) None]"

definition css_link :: selector where
  \<comment> \<open>\<open>a[href]\<close>\<close>
  "css_link = css [Compound (Some ''a'') None (Some ''href'')]"

definition css_img :: selector where
  \<comment> \<open>\<open>img[src]\<close>\<close>
  "css_img = css [Compound (Some ''img'') None (Some ''src'')]"

definition css_pager :: selector where
  \<comment> \<open>\<open>ul.page-numbers, nav.woocommerce-pagination\<close>\<close>
  "css_pager =
     css [Compound (Some ''ul'') (Some (cps ''page-numbers'')) None,
          Compound (Some ''nav'') (Some (cps ''woocommerce-pagination'')) None]"


section \<open>Values, records and the libraries\<close>

text \<open>
  The values \<open>response.json()\<close> returns. A number is an integer of any size or a
  double (Python reads \<open>NaN\<close>, \<open>Infinity\<close> and numbers beyond the double range as
  such); a dictionary is the list of its items, looked up by key, and its keys are only
  ever compared with literals of the source.
\<close>

datatype pyval =
    PNone
  | PBool bool
  | PInt int
  | PFloat pyfloat
  | PStr pystr
  | PList "pyval list"
  | PDict "(string \<times> pyval) list"

text \<open>
  A row of the data frame, in the column order Category, Product Name, Price, URL,
  Image. The price is None or a number; the image is whatever the adapter put there.
\<close>

record row =
  category :: pystr
  product_name :: pystr
  price :: "pyfloat option"
  url :: pystr
  image :: pyval

text \<open>The six parts \<open>urlparse\<close> returns.\<close>

record url_parts =
  scheme :: pystr
  netloc :: pystr
  path :: pystr
  params :: pystr
  query :: pystr
  fragment :: pystr

text \<open>
  What the source does with a response: it parses the body as HTML (\<open>lxml\<close>), as XML,
  or decodes it as JSON. A response carries the three readings of its body.
\<close>

record response =
  as_lxml :: node
  as_xml :: node
  as_json :: "exn + pyval"

text \<open>
  The library calls whose results the source only passes on are parameters:
  \<open>requests.get\<close>, which raises on a timeout or a connection error and returns the
  response otherwise (the source never looks at the status), and the functions of
  \<open>urllib.parse\<close>.
\<close>

record env =
  http_get :: "pystr \<Rightarrow> exn + response"
  urljoin :: "pystr \<Rightarrow> pystr \<Rightarrow> pystr"
  urlparse :: "pystr \<Rightarrow> url_parts"
  urlunparse :: "url_parts \<Rightarrow> pystr"
  unquote :: "pystr \<Rightarrow> pystr"
  quote_plus :: "pystr \<Rightarrow> pystr"

section \<open>WooCommerce\<close>

subsection \<open>The URL of a page\<close>

fun split_on :: "nat \<Rightarrow> pystr \<Rightarrow> pystr list" where
  \<comment> \<open>\<open>s.split(sep)\<close> for a separator of one character\<close>
  "split_on sep [] = [[]]"
| "split_on sep (c # cs) =
     (if c = sep then [] # split_on sep cs
      else (case split_on sep cs of [] \<Rightarrow> [[c]] | p # ps \<Rightarrow> (c # p) # ps))"

definition plus_to_space :: "pystr \<Rightarrow> pystr" where
  \<comment> \<open>\<open>.replace('+', ' ')\<close>\<close>
  "plus_to_space s = map (\<lambda>c. if c = 43 then 32 else c) s"

definition parse_qsl :: "env \<Rightarrow> pystr \<Rightarrow> (pystr \<times> pystr) list" where
  \<comment> \<open>\<open>urllib.parse.parse_qsl\<close> with its defaults: fields are separated by \<open>&\<close>, a
      field is split at its first \<open>=\<close>, and a field with no \<open>=\<close> or with nothing
      after it is left out (\<open>keep_blank_values=False\<close>)\<close>
  "parse_qsl env qs =
     concat (map (\<lambda>name_value.
        let nm = takeWhile (\<lambda>c. c \<noteq> 61) name_value;
            rest = dropWhile (\<lambda>c. c \<noteq> 61) name_value
        in (case rest of
              [] \<Rightarrow> []
            | eq # v \<Rightarrow>
                if v = [] then []
                else [(unquote env (plus_to_space nm), unquote env (plus_to_space v))]))
        (split_on 38 qs))"

fun dict_append :: "(pystr \<times> pystr list) list \<Rightarrow> pystr \<Rightarrow> pystr \<Rightarrow> (pystr \<times> pystr list) list" where
  \<comment> \<open>\<open>d[name].append(value)\<close> if the key is there, \<open>d[name] = [value]\<close> otherwise\<close>
  "dict_append [] k v = [(k, [v])]"
| "dict_append ((k', vs) # d) k v =
     (if k' = k then (k', vs @ [v]) # d else (k', vs) # dict_append d k v)"

definition parse_qs :: "env \<Rightarrow> pystr \<Rightarrow> (pystr \<times> pystr list) list" where
  \<comment> \<open>\<open>urllib.parse.parse_qs\<close>: a dictionary in insertion order\<close>
  "parse_qs env qs = foldl (\<lambda>d (k, v). dict_append d k v) [] (parse_qsl env qs)"

fun dict_set :: "(pystr \<times> 'v) list \<Rightarrow> pystr \<Rightarrow> 'v \<Rightarrow> (pystr \<times> 'v) list" where
  \<comment> \<open>\<open>d[k] = v\<close>: an existing key keeps its place\<close>
  "dict_set [] k v = [(k, v)]"
| "dict_set ((k', w) # d) k v =
     (if k' = k then (k', v) # d else (k', w) # dict_set d k v)"

fun join :: "pystr \<Rightarrow> pystr list \<Rightarrow> pystr" where
  \<comment> \<open>\<open>sep.join(parts)\<close>\<close>
  "join sep [] = []"
| "join sep [p] = p"
| "join sep (p # q # ps) = p @ sep @ join sep (q # ps)"

definition urlencode :: "env \<Rightarrow> (pystr \<times> pystr list) list \<Rightarrow> pystr" where
  \<comment> \<open>\<open>urlencode(d, doseq=True)\<close> for a dictionary of lists of strings\<close>
  "urlencode env d =
     join [38] (concat (map (\<lambda>(k, vs).
        map (\<lambda>elt. quote_plus env k @ [61] @ quote_plus env elt) vs) d))"

fun digits_of_nat :: "nat \<Rightarrow> pystr" where
  "digits_of_nat n =
     (if n < 10 then [48 + n] else digits_of_nat (n div 10) @ [48 + n mod 10])"

declare digits_of_nat.simps [simp del]

definition str_of_int :: "int \<Rightarrow> pystr" where
  \<comment> \<open>\<open>str(num)\<close>\<close>
  "str_of_int i = (if i < 0 then 45 # digits_of_nat (nat (- i)) else digits_of_nat (nat i))"

definition next_page_url :: "env \<Rightarrow> pystr \<Rightarrow> int \<Rightarrow> pystr" where
  "next_page_url env base num =
     (let parsed = urlparse env base;
          qs = parse_qs env (query parsed);
          qs = dict_set qs (cps ''paged'') [str_of_int num]
      in urlunparse env (parsed\<lparr>query := urlencode env qs\<rparr>))"

subsection \<open>The number of pages\<close>

fun page_numbers :: "node list \<Rightarrow> exn + int list" where
  \<comment> \<open>\<open>[int(a.get_text()) for a in links if a.get_text().isdigit()]\<close>\<close>
  "page_numbers [] = Inr []"
| "page_numbers (a # as) =
     (if isdigit (get_text a) then
        (case int_of_text (get_text a) of
           Inl e \<Rightarrow> Inl e
         | Inr n \<Rightarrow> (case page_numbers as of Inl e \<Rightarrow> Inl e | Inr ns \<Rightarrow> Inr (n # ns)))
      else page_numbers as)"

definition last_page :: "node \<Rightarrow> exn + int" where
  "last_page soup =
     (case select_one css_pager soup of
        None \<Rightarrow> Inr 1
      | Some pager \<Rightarrow>
          (case page_numbers (find_all ''a'' pager) of
             Inl e \<Rightarrow> Inl e
           | Inr [] \<Rightarrow> Inr 1
           | Inr (n # ns) \<Rightarrow> Inr (foldl max n ns)))"

subsection \<open>Cards and pages\<close>

definition woo_category :: "node \<Rightarrow> exn + pystr" where
  \<comment> \<open>\<open>card.get("data-product_cat", "") or card.get("class", [""])[0]\<close>\<close>
  "woo_category crd =
     (let d = (case attr_get crd ''data-product_cat'' of None \<Rightarrow> [] | Some v \<Rightarrow> v) in
      if d \<noteq> [] then Inr d
      else (case classes crd of
              None \<Rightarrow> Inr []
            | Some [] \<Rightarrow> Inl IndexError
            | Some (t # ts) \<Rightarrow> Inr t))"

definition woo_card :: "env \<Rightarrow> pystr \<Rightarrow> node \<Rightarrow> exn + row option" where
  \<comment> \<open>the body of the loop of \<open>_parse_cards\<close>: the row to append, None where the source
      says \<open>continue\<close>, or the exception that the \<open>except\<close> clause catches\<close>
  "woo_card env shop_url crd =
     (let name_el = select_one css_title crd;
          price_el = select_one css_price crd;
          link_tag = select_one css_link crd;
          img_tag = select_one css_img crd
      in case (name_el, price_el, link_tag) of
           (Some n, Some p, Some l) \<Rightarrow>
             (case parse_price (get_text p) of
                Inl e \<Rightarrow> Inl e
              | Inr pr \<Rightarrow>
             (case attr_item l ''href'' of
                Inl e \<Rightarrow> Inl e
              | Inr href \<Rightarrow>
             (case (case img_tag of None \<Rightarrow> Inr [] | Some i \<Rightarrow> attr_item i ''src'') of
                Inl e \<Rightarrow> Inl e
              | Inr img \<Rightarrow>
             (case woo_category crd of
                Inl e \<Rightarrow> Inl e
              | Inr cat \<Rightarrow>
                  Inr (Some \<lparr>category = cat, product_name = get_text_strip n,
                             price = Some pr, url = urljoin env shop_url href,
                             image = PStr img\<rparr>)))))
         | _ \<Rightarrow> Inr None)"

fun parse_cards_loop :: "env \<Rightarrow> pystr \<Rightarrow> node list \<Rightarrow> row list \<Rightarrow> row list" where
  \<comment> \<open>\<open>for card in ...\<close>, appending to \<open>rows\<close>\<close>
  "parse_cards_loop env shop_url [] rows = rows"
| "parse_cards_loop env shop_url (crd # cards) rows =
     (case woo_card env shop_url crd of
        Inr (Some r) \<Rightarrow> parse_cards_loop env shop_url cards (rows @ [r])
      | _ \<Rightarrow> parse_cards_loop env shop_url cards rows)"

definition parse_cards :: "env \<Rightarrow> pystr \<Rightarrow> node \<Rightarrow> row list \<Rightarrow> row list" where
  "parse_cards env shop_url sp rows = parse_cards_loop env shop_url (css_product sp) rows"

definition truthy_int :: "int option \<Rightarrow> bool" where
  \<comment> \<open>\<open>if max_pages\<close>: neither None nor 0\<close>
  "truthy_int m = (case m of None \<Rightarrow> False | Some k \<Rightarrow> k \<noteq> 0)"

fun pages_loop :: "env \<Rightarrow> pystr \<Rightarrow> int list \<Rightarrow> row list \<times> int list \<Rightarrow> row list \<times> int list" where
  \<comment> \<open>\<open>for p in range(2, total + 1)\<close>: the rows so far and the pages reported as
      skipped\<close>
  "pages_loop env shop_url [] st = st"
| "pages_loop env shop_url (p # ps) (rows, skipped) =
     (case http_get env (next_page_url env shop_url p) of
        Inl e \<Rightarrow> pages_loop env shop_url ps (rows, skipped @ [p])
      | Inr resp \<Rightarrow>
          pages_loop env shop_url ps (parse_cards env shop_url (as_lxml resp) rows, skipped))"

definition scrape_woocommerce :: "env \<Rightarrow> pystr \<Rightarrow> int option \<Rightarrow> exn + row list \<times> int list" where
  \<comment> \<open>the rows of the data frame and the pages reported as skipped, or the exception
      that leaves the function\<close>
  "scrape_woocommerce env shop_url max_pages =
     (case http_get env shop_url of
        Inl e \<Rightarrow> Inl e
      | Inr resp \<Rightarrow>
          (let first = as_lxml resp;
               rows = parse_cards env shop_url first []
           in case last_page first of
                Inl e \<Rightarrow> Inl e
              | Inr lp \<Rightarrow>
                  (let total = (if truthy_int max_pages then min lp (the max_pages) else lp)
                   in Inr (pages_loop env shop_url [2..total] (rows, [])))))"


section \<open>Generic\<close>

text \<open>
  The selectors a caller supplies are functions from a node to the elements selected
  below it; an optional selector that is None or the empty string is None. The source
  assigns to its parameter \<open>url\<close> inside the loop, so the loop carries the current
  value of that variable along with the rows.
\<close>

definition generic_card ::
  "env \<Rightarrow> pystr \<Rightarrow> selector \<Rightarrow> selector \<Rightarrow> selector option \<Rightarrow> selector option \<Rightarrow> node
     \<Rightarrow> exn + row option" where
  \<comment> \<open>the body of the loop, given the current value of \<open>url\<close>: the row to append
      (its URL is also the new value of \<open>url\<close>), None for \<open>continue\<close>, or the
      exception caught\<close>
  "generic_card env cur sel_name sel_price sel_cat sel_img crd =
     (case (select_one sel_name crd, select_one sel_price crd) of
        (Some name_el, Some price_el) \<Rightarrow>
          (let cat_el = (case sel_cat of None \<Rightarrow> None | Some sc \<Rightarrow> select_one sc crd);
               img_el = (case sel_img of None \<Rightarrow> None | Some si \<Rightarrow> select_one si crd);
               nm = get_text_strip name_el;
               cat = (case cat_el of None \<Rightarrow> cps ''Uncategorised''
                      | Some ce \<Rightarrow> get_text_strip ce)
           in case parse_price (get_text price_el) of
                Inl e \<Rightarrow> Inl e
              | Inr pr \<Rightarrow>
                  (case (case select_one css_link crd of
                           None \<Rightarrow> Inr cur
                         | Some link \<Rightarrow>
                             (case attr_item link ''href'' of
                                Inl e \<Rightarrow> Inl e
                              | Inr href \<Rightarrow> Inr (urljoin env cur href))) of
                     Inl e \<Rightarrow> Inl e
                   | Inr u \<Rightarrow>
                       (let img = (case img_el of None \<Rightarrow> []
                                   | Some ie \<Rightarrow>
                                       (case attr_get ie ''src'' of None \<Rightarrow> [] | Some v \<Rightarrow> v))
                        in Inr (Some \<lparr>category = cat, product_name = nm, price = Some pr,
                                      url = u, image = PStr img\<rparr>))))
      | _ \<Rightarrow> Inr None)"

fun generic_loop ::
  "env \<Rightarrow> selector \<Rightarrow> selector \<Rightarrow> selector option \<Rightarrow> selector option \<Rightarrow> node list
     \<Rightarrow> pystr \<times> row list \<Rightarrow> pystr \<times> row list" where
  "generic_loop env sel_name sel_price sel_cat sel_img [] st = st"
| "generic_loop env sel_name sel_price sel_cat sel_img (crd # cards) (cur, rows) =
     (case generic_card env cur sel_name sel_price sel_cat sel_img crd of
        Inr (Some r) \<Rightarrow>
          generic_loop env sel_name sel_price sel_cat sel_img cards (url r, rows @ [r])
      | _ \<Rightarrow> generic_loop env sel_name sel_price sel_cat sel_img cards (cur, rows))"

definition scrape_generic ::
  "env \<Rightarrow> pystr \<Rightarrow> selector \<Rightarrow> selector \<Rightarrow> selector \<Rightarrow> selector option \<Rightarrow> selector option
     \<Rightarrow> exn + row list" where
  "scrape_generic env page_url sel_prod sel_name sel_price sel_cat sel_img =
     (case http_get env page_url of
        Inl e \<Rightarrow> Inl e
      | Inr resp \<Rightarrow>
          Inr (snd (generic_loop env sel_name sel_price sel_cat sel_img
                      (sel_prod (as_lxml resp)) (page_url, []))))"

section \<open>Shopify\<close>

fun contains :: "pystr \<Rightarrow> pystr \<Rightarrow> bool" where
  \<comment> \<open>\<open>needle in hay\<close>\<close>
  "contains needle [] = (needle = [])"
| "contains needle (c # cs) = (take (length needle) (c # cs) = needle \<or> contains needle cs)"

definition path_name :: "pystr \<Rightarrow> pystr" where
  \<comment> \<open>\<open>Path(s).name\<close> on a POSIX system: the last segment between slashes that is
      neither empty nor a single full stop, or the empty string\<close>
  "path_name s =
     (case filter (\<lambda>seg. seg \<noteq> [] \<and> seg \<noteq> [46]) (split_on 47 s) of
        [] \<Rightarrow> []
      | seg # segs \<Rightarrow> last (seg # segs))"

definition find_sitemaps :: "env \<Rightarrow> pystr \<Rightarrow> exn + pystr list" where
  "find_sitemaps env store_url =
     (case http_get env (urljoin env store_url (cps ''/sitemap.xml'')) of
        Inl e \<Rightarrow> Inl e
      | Inr resp \<Rightarrow>
          Inr (filter (contains (cps ''sitemap_products''))
                 (map get_text (find_all ''loc'' (as_xml resp)))))"

definition extract_handles :: "env \<Rightarrow> pystr \<Rightarrow> exn + pystr list" where
  "extract_handles env smap =
     (case http_get env smap of
        Inl e \<Rightarrow> Inl e
      | Inr resp \<Rightarrow> Inr (map (\<lambda>loc. path_name (get_text loc)) (find_all ''loc'' (as_xml resp))))"

definition dict_get :: "pyval \<Rightarrow> string \<Rightarrow> pyval \<Rightarrow> exn + pyval" where
  \<comment> \<open>\<open>data.get(k, default)\<close>; only a dictionary has \<open>get\<close>\<close>
  "dict_get d k dflt =
     (case d of
        PDict kvs \<Rightarrow> Inr (case map_of kvs k of None \<Rightarrow> dflt | Some v \<Rightarrow> v)
      | _ \<Rightarrow> Inl AttributeError)"

definition str_strip :: "pyval \<Rightarrow> exn + pystr" where
  \<comment> \<open>\<open>v.strip()\<close>; only a string has \<open>strip\<close>\<close>
  "str_strip v = (case v of PStr t \<Rightarrow> Inr (strip t) | _ \<Rightarrow> Inl AttributeError)"

fun truthy :: "pyval \<Rightarrow> bool" where
  "truthy PNone = False"
| "truthy (PBool b) = b"
| "truthy (PInt i) = (i \<noteq> 0)"
| "truthy (PFloat f) = (f \<noteq> Finite 0)"
| "truthy (PStr t) = (t \<noteq> [])"
| "truthy (PList vs) = (vs \<noteq> [])"
| "truthy (PDict kvs) = (kvs \<noteq> [])"

definition variant_price :: "pyval \<Rightarrow> exn + pyval" where
  \<comment> \<open>\<open>v["price"]\<close>\<close>
  "variant_price v =
     (case v of
        PDict kvs \<Rightarrow> (case map_of kvs ''price'' of None \<Rightarrow> Inl KeyError | Some p \<Rightarrow> Inr p)
      | _ \<Rightarrow> Inl TypeError)"

datatype pynum = NInt int | NFloat pyfloat

fun num_of :: "pyval \<Rightarrow> pynum option" where
  \<comment> \<open>a Python number; \<open>True\<close> and \<open>False\<close> count as the integers 1 and 0\<close>
  "num_of (PInt i) = Some (NInt i)"
| "num_of (PBool b) = Some (NInt (if b then 1 else 0))"
| "num_of (PFloat f) = Some (NFloat f)"
| "num_of v = None"

fun exact :: "pynum \<Rightarrow> pyfloat" where
  \<comment> \<open>the value of a number; Python compares an integer with a double exactly\<close>
  "exact (NInt i) = Finite (of_int i)"
| "exact (NFloat f) = f"

fun float_lt :: "pyfloat \<Rightarrow> pyfloat \<Rightarrow> bool" where
  \<comment> \<open>\<open>a < b\<close>: false whenever one side is nan\<close>
  "float_lt (Finite x) (Finite y) = (x < y)"
| "float_lt (Finite x) PosInf = True"
| "float_lt NegInf (Finite y) = True"
| "float_lt NegInf PosInf = True"
| "float_lt a b = False"

definition num_lt :: "pynum \<Rightarrow> pynum \<Rightarrow> bool" where
  "num_lt a b = float_lt (exact a) (exact b)"

definition py_lt :: "pyval \<Rightarrow> pyval \<Rightarrow> exn + bool" where
  \<comment> \<open>\<open>a < b\<close> as \<open>min\<close> asks it. Two numbers compare. Anything else is a TypeError
      here: Python also orders two strings or two lists, but then the minimum is no
      number and the division by 100 raises the TypeError, so only which exception
      ends the call can differ, never whether one does.\<close>
  "py_lt a b =
     (case (num_of a, num_of b) of
        (Some x, Some y) \<Rightarrow> Inr (num_lt x y)
      | _ \<Rightarrow> Inl TypeError)"

definition div100 :: "pynum \<Rightarrow> exn + pyfloat" where
  \<comment> \<open>\<open>n / 100\<close>: the quotient rounded to a double. For an integer it is an
      OverflowError when the quotient is beyond the doubles; an infinity or a nan
      divided by 100 is itself.\<close>
  "div100 n =
     (case n of
        NInt i \<Rightarrow>
          (case to_double (of_int i / 100) of
             Finite y \<Rightarrow> Inr (Finite y)
           | _ \<Rightarrow> Inl OverflowError)
      | NFloat f \<Rightarrow>
          Inr (case f of Finite x \<Rightarrow> to_double (x / 100) | g \<Rightarrow> g))"

fun min_loop :: "pyval \<Rightarrow> pyval list \<Rightarrow> exn + pyval" where
  \<comment> \<open>\<open>min\<close> over the generator, after its first item: each item is computed, then
      compared with the least one so far\<close>
  "min_loop least [] = Inr least"
| "min_loop least (v # vs) =
     (case variant_price v of
        Inl e \<Rightarrow> Inl e
      | Inr p \<Rightarrow>
          (case py_lt p least of
             Inl e \<Rightarrow> Inl e
           | Inr b \<Rightarrow> min_loop (if b then p else least) vs))"

definition min_price :: "pyval \<Rightarrow> exn + pyfloat option" where
  \<comment> \<open>\<open>min(v["price"] for v in variants)/100 if variants else None\<close>; only a list
      yields variants that can be indexed by a key\<close>
  "min_price variants =
     (if truthy variants then
        (case variants of
           PList (v # vs) \<Rightarrow>
             (case variant_price v of
                Inl e \<Rightarrow> Inl e
              | Inr p \<Rightarrow>
                  (case min_loop p vs of
                     Inl e \<Rightarrow> Inl e
                   | Inr m \<Rightarrow>
                       (case num_of m of
                          None \<Rightarrow> Inl TypeError
                        | Some n \<Rightarrow>
                            (case div100 n of
                               Inl e \<Rightarrow> Inl e
                             | Inr f \<Rightarrow> Inr (Some f)))))
         | _ \<Rightarrow> Inl TypeError)
      else Inr None)"

definition first_image :: "pyval \<Rightarrow> exn + pyval" where
  \<comment> \<open>\<open>data.get("images", [""])[0] if data.get("images") else ""\<close>, given
      \<open>data.get("images")\<close>\<close>
  "first_image imgs =
     (if truthy imgs then
        (case imgs of
           PList (v # vs) \<Rightarrow> Inr v
         | PStr (c # cs) \<Rightarrow> Inr (PStr [c])
         | PDict kvs \<Rightarrow> Inl KeyError
         | _ \<Rightarrow> Inl TypeError)
      else Inr (PStr []))"

definition shopify_row :: "env \<Rightarrow> pystr \<Rightarrow> pystr \<Rightarrow> pyval \<Rightarrow> exn + row" where
  \<comment> \<open>the statements after the \<open>try\<close>, for the decoded payload \<open>data\<close>\<close>
  "shopify_row env store_url handle data =
     (case dict_get data ''title'' (PStr []) of Inl e \<Rightarrow> Inl e | Inr t \<Rightarrow>
     (case str_strip t of Inl e \<Rightarrow> Inl e | Inr title \<Rightarrow>
     (case dict_get data ''type'' (PStr (cps ''Uncategorised'')) of Inl e \<Rightarrow> Inl e | Inr ty \<Rightarrow>
     (case str_strip ty of Inl e \<Rightarrow> Inl e | Inr cat \<Rightarrow>
     (case dict_get data ''variants'' (PList []) of Inl e \<Rightarrow> Inl e | Inr variants \<Rightarrow>
     (case min_price variants of Inl e \<Rightarrow> Inl e | Inr pr \<Rightarrow>
     (case dict_get data ''images'' PNone of Inl e \<Rightarrow> Inl e | Inr imgs \<Rightarrow>
     (case first_image imgs of Inl e \<Rightarrow> Inl e | Inr img \<Rightarrow>
        Inr \<lparr>category = cat, product_name = title, price = pr,
             url = urljoin env store_url (cps ''/products/'' @ handle),
             image = img\<rparr>))))))))"

definition fetch_payload :: "env \<Rightarrow> pystr \<Rightarrow> pystr \<Rightarrow> exn + pyval" where
  \<comment> \<open>the expression inside the \<open>try\<close>: the request, then \<open>.json()\<close>\<close>
  "fetch_payload env store_url handle =
     (case http_get env (urljoin env store_url (cps ''/products/'' @ handle @ cps ''.js'')) of
        Inl e \<Rightarrow> Inl e
      | Inr resp \<Rightarrow> as_json resp)"

fun handles_loop :: "env \<Rightarrow> pystr \<Rightarrow> pystr list \<Rightarrow> row list \<Rightarrow> exn + row list" where
  "handles_loop env store_url [] rows = Inr rows"
| "handles_loop env store_url (handle # handles) rows =
     (case fetch_payload env store_url handle of
        Inl e \<Rightarrow> handles_loop env store_url handles rows
      | Inr data \<Rightarrow>
          (case shopify_row env store_url handle data of
             Inl e \<Rightarrow> Inl e
           | Inr r \<Rightarrow> handles_loop env store_url handles (rows @ [r])))"

fun sitemaps_loop :: "env \<Rightarrow> pystr \<Rightarrow> pystr list \<Rightarrow> row list \<Rightarrow> exn + row list" where
  "sitemaps_loop env store_url [] rows = Inr rows"
| "sitemaps_loop env store_url (sm # sms) rows =
     (case extract_handles env sm of
        Inl e \<Rightarrow> Inl e
      | Inr handles \<Rightarrow>
          (case handles_loop env store_url handles rows of
             Inl e \<Rightarrow> Inl e
           | Inr rows' \<Rightarrow> sitemaps_loop env store_url sms rows'))"

definition scrape_shopify :: "env \<Rightarrow> pystr \<Rightarrow> exn + row list" where
  "scrape_shopify env store_url =
     (case find_sitemaps env store_url of
        Inl e \<Rightarrow> Inl e
      | Inr sms \<Rightarrow> sitemaps_loop env store_url sms [])"


section \<open>Auxiliary notions for the properties\<close>

definition woo_row_of :: "env \<Rightarrow> pystr \<Rightarrow> node \<Rightarrow> row option" where
  \<comment> \<open>the row a card contributes, if any\<close>
  "woo_row_of env shop_url crd =
     (case woo_card env shop_url crd of Inr (Some r) \<Rightarrow> Some r | _ \<Rightarrow> None)"

definition page_rows :: "env \<Rightarrow> pystr \<Rightarrow> int \<Rightarrow> row list" where
  \<comment> \<open>the rows page \<open>p\<close> contributes: none when its request raises\<close>
  "page_rows env shop_url p =
     (case http_get env (next_page_url env shop_url p) of
        Inl e \<Rightarrow> []
      | Inr resp \<Rightarrow> List.map_filter (woo_row_of env shop_url) (css_product (as_lxml resp)))"

definition page_fails :: "env \<Rightarrow> pystr \<Rightarrow> int \<Rightarrow> bool" where
  "page_fails env shop_url p = isl (http_get env (next_page_url env shop_url p))"

definition total_pages :: "int \<Rightarrow> int option \<Rightarrow> int" where
  \<comment> \<open>\<open>min(last, max_pages) if max_pages else last\<close>\<close>
  "total_pages lp max_pages = (if truthy_int max_pages then min lp (the max_pages) else lp)"

definition price_number :: "pyval \<Rightarrow> pynum option" where
  \<comment> \<open>the number a variant has as its price, when it has one\<close>
  "price_number v = (case variant_price v of Inl e \<Rightarrow> None | Inr p \<Rightarrow> num_of p)"

definition is_nan :: "pynum \<Rightarrow> bool" where
  "is_nan n = (exact n = NaN)"

subsection \<open>A small site to run the adapters on\<close>

text \<open>
  The examples use URLs of the form \<open>scheme://host/path?query#fragment\<close> and
  references that are empty, start with one slash, or are absolute URLs. On these the
  functions below agree with \<open>urllib.parse\<close>; queries and references in the examples
  contain no character that \<open>quote_plus\<close> or \<open>unquote\<close> would change.
\<close>

definition origin :: "pystr \<Rightarrow> pystr" where
  "origin u =
     (let sch = takeWhile (\<lambda>c. c \<noteq> 47) u;
          rest = dropWhile (\<lambda>c. c = 47) (dropWhile (\<lambda>c. c \<noteq> 47) u)
      in sch @ cps ''//'' @ takeWhile (\<lambda>c. c \<noteq> 47) rest)"

definition example_urljoin :: "pystr \<Rightarrow> pystr \<Rightarrow> pystr" where
  "example_urljoin base ref =
     (if ref = [] then base else if hd ref = 47 then origin base @ ref else ref)"

definition example_urlparse :: "pystr \<Rightarrow> url_parts" where
  "example_urlparse u =
     (let sch = takeWhile (\<lambda>c. c \<noteq> 58) u;
          rest = drop 3 (dropWhile (\<lambda>c. c \<noteq> 58) u);
          loc = takeWhile (\<lambda>c. c \<noteq> 47 \<and> c \<noteq> 63 \<and> c \<noteq> 35) rest;
          rest = dropWhile (\<lambda>c. c \<noteq> 47 \<and> c \<noteq> 63 \<and> c \<noteq> 35) rest;
          pth = takeWhile (\<lambda>c. c \<noteq> 63 \<and> c \<noteq> 35) rest;
          rest = dropWhile (\<lambda>c. c \<noteq> 63 \<and> c \<noteq> 35) rest;
          qry = (if rest \<noteq> [] \<and> hd rest = 63 then takeWhile (\<lambda>c. c \<noteq> 35) (tl rest) else []);
          frag = drop 1 (dropWhile (\<lambda>c. c \<noteq> 35) rest)
      in \<lparr>scheme = sch, netloc = loc, path = pth, params = [], query = qry, fragment = frag\<rparr>)"

definition example_urlunparse :: "url_parts \<Rightarrow> pystr" where
  "example_urlunparse p =
     scheme p @ cps ''://'' @ netloc p @ path p @
     (if params p = [] then [] else 59 # params p) @
     (if query p = [] then [] else 63 # query p) @
     (if fragment p = [] then [] else 35 # fragment p)"

definition example_env :: "(pystr \<times> response) list \<Rightarrow> env" where
  \<comment> \<open>a site serves the listed URLs; a request for any other URL raises\<close>
  "example_env site =
     \<lparr>http_get = (\<lambda>u. case map_of site u of None \<Rightarrow> Inl RequestException | Some resp \<Rightarrow> Inr resp),
      urljoin = example_urljoin, urlparse = example_urlparse, urlunparse = example_urlunparse,
      unquote = (\<lambda>t. t), quote_plus = (\<lambda>t. t)\<rparr>"

definition document :: "node list \<Rightarrow> node" where
  "document cs = Elem ''[document]'' [] cs"

definition markup :: "node \<Rightarrow> response" where
  \<comment> \<open>a response whose body is markup, which does not decode as JSON\<close>
  "markup n = \<lparr>as_lxml = n, as_xml = n, as_json = Inl JSONDecodeError\<rparr>"

definition payload :: "pyval \<Rightarrow> response" where
  \<comment> \<open>a response whose body is JSON\<close>
  "payload v = \<lparr>as_lxml = document [], as_xml = document [], as_json = Inr v\<rparr>"

definition price_span :: "pystr \<Rightarrow> node" where
  \<comment> \<open>\<open><span class="price">...</span>\<close>\<close>
  "price_span t = Elem ''span'' [(''class'', cps ''price'')] [Text t]"

definition title_h2 :: "pystr \<Rightarrow> node" where
  \<comment> \<open>\<open><h2 class="woocommerce-loop-product__title">...</h2>\<close>\<close>
  "title_h2 t = Elem ''h2'' [(''class'', cps ''woocommerce-loop-product__title'')] [Text t]"

definition product_card :: "pystr \<Rightarrow> pystr \<Rightarrow> pystr \<Rightarrow> node" where
  \<comment> \<open>\<open><li class="product type-product"><a href=...>title, price</a></li>\<close>\<close>
  "product_card href title price_text =
     Elem ''li'' [(''class'', cps ''product type-product'')]
       [Elem ''a'' [(''href'', href)] [title_h2 title, price_span price_text]]"

definition plain_card :: "pystr \<Rightarrow> pystr \<Rightarrow> node" where
  \<comment> \<open>the same card with no link\<close>
  "plain_card title price_text =
     Elem ''li'' [(''class'', cps ''product type-product'')]
       [title_h2 title, price_span price_text]"

definition pager :: "pystr list \<Rightarrow> node" where
  \<comment> \<open>\<open><ul class="page-numbers">\<close> with one link per label\<close>
  "pager labels =
     Elem ''ul'' [(''class'', cps ''page-numbers'')]
       (map (\<lambda>l. Elem ''li'' [] [Elem ''a'' [(''href'', cps ''#'')] [Text l]]) labels)"

definition loc_entry :: "string \<Rightarrow> pystr \<Rightarrow> node" where
  \<comment> \<open>\<open><sitemap><loc>...</loc></sitemap>\<close> or \<open><url><loc>...</loc></url>\<close>\<close>
  "loc_entry tg u = Elem tg [] [Elem ''loc'' [] [Text u]]"

definition store_index :: node where
  \<comment> \<open>the root sitemap of the example store: one product sitemap, one other\<close>
  "store_index =
     document [Elem ''sitemapindex'' []
       [loc_entry ''sitemap'' (cps ''https://s.example/sitemap_products_1.xml''),
        loc_entry ''sitemap'' (cps ''https://s.example/sitemap_pages_1.xml'')]]"

definition store_products :: node where
  \<comment> \<open>its product sitemap: two products\<close>
  "store_products =
     document [Elem ''urlset'' []
       [loc_entry ''url'' (cps ''https://s.example/products/mug''),
        loc_entry ''url'' (cps ''https://s.example/products/cup'')]]"

definition store_site :: "(pystr \<times> response) list \<Rightarrow> env" where
  \<comment> \<open>the example store, with the given responses for the product payloads\<close>
  "store_site payloads =
     example_env
       ([(cps ''https://s.example/sitemap.xml'', markup store_index),
         (cps ''https://s.example/sitemap_products_1.xml'', markup store_products)] @ payloads)"

definition product_json :: "pystr \<Rightarrow> pyval \<Rightarrow> pyval" where
  \<comment> \<open>\<open>{"title": ..., "variants": ...}\<close>\<close>
  "product_json title variants = PDict [(''title'', PStr title), (''variants'', variants)]"

definition priced :: "pyval \<Rightarrow> pyval" where
  \<comment> \<open>\<open>{"price": ...}\<close>\<close>
  "priced x = PDict [(''price'', x)]"

section \<open>Properties\<close>

subsection \<open>Doubles\<close>

lemma bit_length_numeral:
  "bit_length 0 = 0"
  "bit_length 1 = 1"
  "bit_length (Suc 0) = 1"
  "bit_length (numeral (Num.Bit0 k)) = Suc (bit_length (numeral k))"
  "bit_length (numeral (Num.Bit1 k)) = Suc (bit_length (numeral k))"
proof -
  show "bit_length 0 = 0" by (simp add: bit_length.simps)
  show "bit_length 1 = 1" by (subst bit_length.simps) (simp add: bit_length.simps [of 0])
  then show "bit_length (Suc 0) = 1" by simp
  show "bit_length (numeral (Num.Bit0 k)) = Suc (bit_length (numeral k))"
    by (subst bit_length.simps) simp
  have "numeral (Num.Bit1 k) div (2::nat) = numeral k" by simp
  then show "bit_length (numeral (Num.Bit1 k)) = Suc (bit_length (numeral k))"
    by (subst bit_length.simps) simp
qed

lemma round_half_even_int: "round_half_even (of_int n) = n"
  by (simp add: round_half_even_def)

lemma round_half_even_numeral: "round_half_even (numeral k) = numeral k"
  using round_half_even_int [of "numeral k"] by simp

lemma floor_rat_numeral: "\<lfloor>numeral a / numeral b :: rat\<rfloor> = numeral a div numeral b"
  using floor_divide_of_int_eq [of "numeral a" "numeral b", where ?'a = rat] by simp

lemma floor_log2_examples:
  "floor_log2 5 = 2" "floor_log2 199 = 7" "floor_log2 (1/2) = - 1" "floor_log2 (2599/2) = 10"
  by (simp_all add: floor_log2_def bit_length_numeral floor_rat_numeral)

lemma to_double_examples:
  "to_double 5 = Finite 5" "to_double (- 5) = Finite (- 5)" "to_double 199 = Finite 199"
  "to_double (1/2) = Finite (1/2)" "to_double (2599/2) = Finite (2599/2)"
  by (simp_all add: to_double_def double_threshold_def floor_log2_examples pow2_def
      round_half_even_numeral)

lemma round_half_even_nonneg: "0 \<le> x \<Longrightarrow> 0 \<le> round_half_even x"
  by (auto simp: round_half_even_def Let_def)

lemma pow2_pos: "0 < pow2 e"
  by (simp add: pow2_def)

lemma to_double_nonneg: "0 \<le> x \<Longrightarrow> nonneg (to_double x)"
  using round_half_even_nonneg [of "\<bar>x\<bar> / pow2 (max (floor_log2 \<bar>x\<bar> - 52) (- 1074))"]
    pow2_pos [of "max (floor_log2 \<bar>x\<bar> - 52) (- 1074)"]
  by (auto simp: to_double_def Let_def)

lemma to_double_not_nan: "to_double x \<noteq> NaN"
  by (simp add: to_double_def Let_def)

lemma double_threshold_pos: "0 < double_threshold"
proof -
  have "(2::rat) ^ 970 < 2 ^ 1024" by (rule power_strict_increasing) simp_all
  then show ?thesis unfolding double_threshold_def by (simp only: diff_gt_0_iff_gt)
qed

lemma to_double_beyond: "double_threshold \<le> x \<Longrightarrow> to_double x = PosInf"
  using double_threshold_pos by (simp add: to_double_def)

lemma double_threshold_le: "double_threshold \<le> 10 ^ 400"
proof -
  have "(0::rat) \<le> 2 ^ 970" by (rule zero_le_power) simp
  then have "double_threshold \<le> 2 ^ 1024"
    unfolding double_threshold_def by (simp only: diff_le_eq le_add_same_cancel1)
  also have "(2::rat) ^ 1024 \<le> 2 ^ (3 * 400)" by (rule power_increasing) simp_all
  also have "(2::rat) ^ (3 * 400) = (2 ^ 3) ^ 400" by (rule power_mult)
  also have "((2::rat) ^ 3) ^ 400 \<le> 10 ^ 400" by (rule power_mono) simp_all
  finally show ?thesis .
qed

subsection \<open>A price text of many digits\<close>

lemma quotient_402: "(of_int (10 ^ 402) :: rat) / 100 = 10 ^ 400"
proof -
  have "(10::rat) ^ (400 + 2) = 10 ^ 400 * 10 ^ 2" by (rule power_add)
  moreover have "(400::nat) + 2 = 402" by simp
  ultimately have "(10::rat) ^ 402 = 10 ^ 400 * 10 ^ 2" by (simp only:)
  moreover have "(10::rat) ^ 2 = 100" by simp
  ultimately have "(10::rat) ^ 402 = 10 ^ 400 * 100" by (simp only:)
  moreover have "(of_int (10 ^ 402) :: rat) = 10 ^ 402" by (simp only: of_int_power of_int_numeral)
  ultimately have "(of_int (10 ^ 402) :: rat) = 10 ^ 400 * 100" by (simp only:)
  then show ?thesis by (simp only: nonzero_mult_div_cancel_right [of 100, simplified])
qed

lemma div100_overflow: "div100 (NInt (10 ^ 402)) = Inl OverflowError"
  unfolding div100_def pynum.case quotient_402 to_double_beyond [OF double_threshold_le]
  by simp

lemma foldl_zeros:
  "foldl (\<lambda>a c. 10 * a + decimal_value c) a (replicate n 48) = a * 10 ^ n"
  by (induction n arbitrary: a)
     (simp_all add: decimal_value_def decimal_of_def decimal_starts_def)

lemma decimal_value_zero_one: "decimal_value 48 = 0" "decimal_value 49 = 1"
  by (simp_all add: decimal_value_def decimal_of_def decimal_starts_def)

lemma digits_value_one_zeros: "digits_value (49 # replicate n 48) = 10 ^ n"
  by (simp add: digits_value_def foldl_zeros decimal_value_zero_one)

lemma is_decimal_zero_one: "is_decimal 48" "is_decimal 49" "\<not> is_decimal 44" "\<not> is_decimal 46"
  by (simp_all add: is_decimal_def decimal_of_def decimal_starts_def)

lemma parse_price_decimals:
  assumes "ds \<noteq> []" and "\<forall>c \<in> set ds. is_decimal c"
  shows "parse_price ds = Inr (to_double (of_nat (digits_value ds)))"
proof -
  from assms obtain c cs where ds: "ds = c # cs" by (cases ds) auto
  have cl: "\<forall>c \<in> set ds. in_price_class c" using assms(2) by (simp add: in_price_class_def)
  have a: "dropWhile (\<lambda>c. \<not> in_price_class c) ds = ds" using cl ds by simp
  have b: "takeWhile in_price_class ds = ds" using cl by (simp add: takeWhile_eq_all_conv)
  have s: "search_price_run ds = Some ds"
    unfolding search_price_run_def a b using assms(1) by simp
  have "\<forall>c \<in> set ds. c \<noteq> 44" using assms(2) is_decimal_zero_one(3) by auto
  then have r: "remove_commas ds = ds" by (simp add: remove_commas_def filter_id_conv)
  have t: "takeWhile is_decimal ds = ds" using assms(2) by (simp add: takeWhile_eq_all_conv)
  have d: "dropWhile is_decimal ds = []" using assms(2) by simp
  show ?thesis using assms(1) by (simp add: parse_price_def s r float_of_text_def t d)
qed

lemma parse_price_one_zeros: "parse_price (cps ''1'' @ replicate 400 48) = Inr PosInf"
proof -
  have "parse_price (49 # replicate 400 48) = Inr (to_double (of_nat (digits_value (49 # replicate 400 48))))"
    by (rule parse_price_decimals) (simp_all add: is_decimal_zero_one)
  also have "to_double (of_nat (digits_value (49 # replicate 400 48))) = PosInf"
    unfolding digits_value_one_zeros
    by (rule to_double_beyond) (simp only: of_nat_power of_nat_numeral double_threshold_le)
  finally show ?thesis by (simp add: cps_def)
qed

subsection \<open>What a row comes from\<close>

lemma float_of_text_nonneg: "float_of_text s = Inr f \<Longrightarrow> nonneg f"
  by (auto simp: float_of_text_def Let_def split: list.splits if_splits intro!: to_double_nonneg)

lemma parse_price_nonneg: "parse_price t = Inr f \<Longrightarrow> nonneg f"
  by (auto simp: parse_price_def split: option.splits dest: float_of_text_nonneg)

lemma woo_card_SomeD:
  assumes "woo_card env shop_url crd = Inr (Some r)"
  shows "\<exists>n p l pr href.
           select_one css_title crd = Some n \<and> select_one css_price crd = Some p \<and>
           select_one css_link crd = Some l \<and> parse_price (get_text p) = Inr pr \<and>
           attr_item l ''href'' = Inr href \<and> woo_category crd = Inr (category r) \<and>
           product_name r = get_text_strip n \<and> price r = Some pr \<and>
           url r = urljoin env shop_url href"
  using assms
  by (auto simp: woo_card_def Let_def split: option.splits sum.splits)

lemma generic_card_SomeD:
  assumes "generic_card env cur sn sp sc si crd = Inr (Some r)"
  shows "\<exists>n p pr.
           select_one sn crd = Some n \<and> select_one sp crd = Some p \<and>
           parse_price (get_text p) = Inr pr \<and>
           product_name r = get_text_strip n \<and> price r = Some pr \<and>
           category r = (case (case sc of None \<Rightarrow> None | Some s \<Rightarrow> select_one s crd) of
                           None \<Rightarrow> cps ''Uncategorised'' | Some ce \<Rightarrow> get_text_strip ce) \<and>
           (case select_one css_link crd of
              None \<Rightarrow> url r = cur
            | Some link \<Rightarrow> \<exists>href. attr_item link ''href'' = Inr href \<and> url r = urljoin env cur href)"
  using assms
  by (auto simp: generic_card_def Let_def split: option.splits sum.splits)

lemma parse_cards_loop_eq:
  "parse_cards_loop env shop_url cards rows =
     rows @ List.map_filter (woo_row_of env shop_url) cards"
  by (induction cards arbitrary: rows)
     (auto simp: List.map_filter_simps woo_row_of_def split: sum.splits option.splits)

lemma parse_cards_eq:
  "parse_cards env shop_url sp rows =
     rows @ List.map_filter (woo_row_of env shop_url) (css_product sp)"
  by (simp add: parse_cards_def parse_cards_loop_eq)

lemma pages_loop_eq:
  "pages_loop env shop_url ps (rows, skipped) =
     (rows @ concat (map (page_rows env shop_url) ps),
      skipped @ filter (page_fails env shop_url) ps)"
  by (induction ps arbitrary: rows skipped)
     (auto simp: page_rows_def page_fails_def parse_cards_eq split: sum.splits)

lemma scrape_woocommerce_eq:
  assumes "http_get env shop_url = Inr resp" and "last_page (as_lxml resp) = Inr lp"
  shows "scrape_woocommerce env shop_url max_pages =
           Inr (List.map_filter (woo_row_of env shop_url) (css_product (as_lxml resp)) @
                  concat (map (page_rows env shop_url) [2..total_pages lp max_pages]),
                filter (page_fails env shop_url) [2..total_pages lp max_pages])"
  using assms
  by (simp add: scrape_woocommerce_def Let_def pages_loop_eq parse_cards_eq total_pages_def)

lemma map_filter_SomeD: "r \<in> set (List.map_filter f xs) \<Longrightarrow> \<exists>x \<in> set xs. f x = Some r"
  by (auto simp: List.map_filter_def)

lemma woo_row_of_SomeD:
  "r \<in> set (List.map_filter (woo_row_of env shop_url) cards) \<Longrightarrow>
     \<exists>crd \<in> set cards. woo_card env shop_url crd = Inr (Some r)"
  by (auto simp: woo_row_of_def dest!: map_filter_SomeD split: sum.splits option.splits)

lemma page_rows_SomeD:
  assumes "r \<in> set (page_rows env shop_url p)"
  shows "\<exists>resp crd. http_get env (next_page_url env shop_url p) = Inr resp \<and>
           crd \<in> set (css_product (as_lxml resp)) \<and> woo_card env shop_url crd = Inr (Some r)"
proof (cases "http_get env (next_page_url env shop_url p)")
  case (Inl e)
  with assms show ?thesis by (simp add: page_rows_def)
next
  case (Inr resp)
  with assms woo_row_of_SomeD [of r env shop_url "css_product (as_lxml resp)"]
  show ?thesis by (auto simp: page_rows_def)
qed

lemma woo_row_provenance:
  assumes "scrape_woocommerce env shop_url max_pages = Inr (rows, skipped)" and "r \<in> set rows"
  shows "\<exists>u resp crd. http_get env u = Inr resp \<and> crd \<in> set (css_product (as_lxml resp)) \<and>
           woo_card env shop_url crd = Inr (Some r)"
proof -
  from assms(1) obtain resp lp where g: "http_get env shop_url = Inr resp"
    and l: "last_page (as_lxml resp) = Inr lp"
    by (auto simp: scrape_woocommerce_def Let_def split: sum.splits)
  from scrape_woocommerce_eq [OF g l, of max_pages] assms
  have "r \<in> set (List.map_filter (woo_row_of env shop_url) (css_product (as_lxml resp)))
        \<or> (\<exists>p. r \<in> set (page_rows env shop_url p))"
    by auto
  then show ?thesis
  proof
    assume "r \<in> set (List.map_filter (woo_row_of env shop_url) (css_product (as_lxml resp)))"
    from woo_row_of_SomeD [OF this] g show ?thesis by blast
  next
    assume "\<exists>p. r \<in> set (page_rows env shop_url p)"
    then obtain p where "r \<in> set (page_rows env shop_url p)" ..
    from page_rows_SomeD [OF this] show ?thesis by blast
  qed
qed

lemma generic_loop_provenance:
  "r \<in> set (snd (generic_loop env sn sp sc si cards (cur, rows))) \<Longrightarrow>
     r \<in> set rows \<or>
     (\<exists>crd \<in> set cards. \<exists>c. generic_card env c sn sp sc si crd = Inr (Some r))"
proof (induction cards arbitrary: cur rows)
  case Nil
  then show ?case by simp
next
  case (Cons crd cards)
  show ?case
  proof (cases "generic_card env cur sn sp sc si crd")
    case (Inl e)
    with Cons show ?thesis by fastforce
  next
    case (Inr o1)
    show ?thesis
    proof (cases o1)
      case None
      with Inr Cons show ?thesis by fastforce
    next
      case (Some r')
      with Inr Cons.prems
      have "r \<in> set (snd (generic_loop env sn sp sc si cards (url r', rows @ [r'])))"
        by simp
      from Cons.IH [OF this] Inr Some show ?thesis by auto
    qed
  qed
qed

lemma generic_row_provenance:
  assumes "scrape_generic env page_url sel_prod sn sp sc si = Inr rows" and "r \<in> set rows"
  shows "\<exists>resp crd c. http_get env page_url = Inr resp \<and> crd \<in> set (sel_prod (as_lxml resp)) \<and>
           generic_card env c sn sp sc si crd = Inr (Some r)"
  using assms generic_loop_provenance [of r env sn sp sc si _ page_url "[]"]
  by (fastforce simp: scrape_generic_def split: sum.splits)

lemma handles_loop_provenance:
  "handles_loop env store_url hs rows = Inr rows' \<Longrightarrow> r \<in> set rows' \<Longrightarrow>
     r \<in> set rows \<or>
     (\<exists>h \<in> set hs. \<exists>d. fetch_payload env store_url h = Inr d \<and> shopify_row env store_url h d = Inr r)"
proof (induction hs arbitrary: rows)
  case Nil
  then show ?case by simp
next
  case (Cons h hs)
  then show ?case
    by (fastforce split: sum.splits)
qed

lemma sitemaps_loop_provenance:
  "sitemaps_loop env store_url sms rows = Inr rows' \<Longrightarrow> r \<in> set rows' \<Longrightarrow>
     r \<in> set rows \<or>
     (\<exists>h d. fetch_payload env store_url h = Inr d \<and> shopify_row env store_url h d = Inr r)"
proof (induction sms arbitrary: rows)
  case Nil
  then show ?case by simp
next
  case (Cons sm sms)
  from Cons.prems(1) obtain hs rows1 where hl: "handles_loop env store_url hs rows = Inr rows1"
    and sl: "sitemaps_loop env store_url sms rows1 = Inr rows'"
    by (auto split: sum.splits)
  from Cons.IH [OF sl Cons.prems(2)] handles_loop_provenance [OF hl]
  show ?case by blast
qed

lemma shopify_row_provenance:
  assumes "scrape_shopify env store_url = Inr rows" and "r \<in> set rows"
  shows "\<exists>h d. fetch_payload env store_url h = Inr d \<and> shopify_row env store_url h d = Inr r"
  using assms sitemaps_loop_provenance [of env store_url _ "[]" rows r]
  by (auto simp: scrape_shopify_def split: sum.splits)

subsection \<open>Payloads, skipped handles and categories\<close>

lemma py_lt_InrD:
  "py_lt p q = Inr b \<Longrightarrow> \<exists>x y. num_of p = Some x \<and> num_of q = Some y \<and> b = num_lt x y"
  by (auto simp: py_lt_def split: option.splits)

lemma float_le_trans:
  "a \<noteq> NaN \<Longrightarrow> b \<noteq> NaN \<Longrightarrow> c \<noteq> NaN \<Longrightarrow> \<not> float_lt b a \<Longrightarrow> \<not> float_lt c b \<Longrightarrow>
     \<not> float_lt c a"
  by (cases a; cases b; cases c) auto

lemma float_lt_asym: "float_lt a b \<Longrightarrow> \<not> float_lt b a"
  by (cases a; cases b) auto

lemma num_le_trans:
  "\<not> is_nan a \<Longrightarrow> \<not> is_nan b \<Longrightarrow> \<not> is_nan c \<Longrightarrow> \<not> num_lt b a \<Longrightarrow> \<not> num_lt c b \<Longrightarrow>
     \<not> num_lt c a"
  unfolding is_nan_def num_lt_def by (rule float_le_trans)

lemma num_lt_asym: "num_lt a b \<Longrightarrow> \<not> num_lt b a"
  unfolding num_lt_def by (rule float_lt_asym)

lemma min_loop_member:
  "min_loop least vs = Inr m \<Longrightarrow> m = least \<or> list_ex (\<lambda>v. variant_price v = Inr m) vs"
proof (induction vs arbitrary: least)
  case Nil
  then show ?case by simp
next
  case (Cons v vs)
  from Cons.prems obtain p b where vp: "variant_price v = Inr p"
    and rec: "min_loop (if b then p else least) vs = Inr m"
    by (auto split: sum.splits)
  from Cons.IH [OF rec] vp show ?case by (auto split: if_splits)
qed

lemma min_loop_least:
  assumes "min_loop least vs = Inr m" and "num_of least = Some a" and "\<not> is_nan a"
    and "list_all (\<lambda>v. \<exists>n. price_number v = Some n \<and> \<not> is_nan n) vs"
  shows "\<exists>k. num_of m = Some k \<and> \<not> is_nan k \<and> \<not> num_lt a k \<and>
           list_all (\<lambda>v. \<exists>n. price_number v = Some n \<and> \<not> num_lt n k) vs"
  using assms
proof (induction vs arbitrary: least a)
  case Nil
  then show ?case by (simp add: num_lt_def is_nan_def) (cases "exact a"; simp)
next
  case (Cons v vs)
  from Cons.prems(1) obtain p b where vp: "variant_price v = Inr p"
    and lt: "py_lt p least = Inr b"
    and rec: "min_loop (if b then p else least) vs = Inr m"
    by (auto split: sum.splits)
  from Cons.prems(4) vp obtain n where n: "num_of p = Some n" and nn: "\<not> is_nan n"
    and rest: "list_all (\<lambda>v. \<exists>n. price_number v = Some n \<and> \<not> is_nan n) vs"
    by (auto simp: price_number_def)
  from py_lt_InrD [OF lt] n Cons.prems(2) have b: "b = num_lt n a" by auto
  let ?c = "if b then n else a"
  have c: "num_of (if b then p else least) = Some ?c" using n Cons.prems(2) by simp
  have cn: "\<not> is_nan ?c" using nn Cons.prems(3) by simp
  from Cons.IH [OF rec c cn rest] obtain k where k: "num_of m = Some k" and kn: "\<not> is_nan k"
    and ck: "\<not> num_lt ?c k"
    and all: "list_all (\<lambda>v. \<exists>n. price_number v = Some n \<and> \<not> num_lt n k) vs"
    by blast
  have ak: "\<not> num_lt a k" and nk: "\<not> num_lt n k"
  proof -
    show "\<not> num_lt a k"
    proof (cases b)
      case True
      with b have "\<not> num_lt a n" by (simp add: num_lt_asym)
      moreover from True ck have "\<not> num_lt n k" by simp
      ultimately show ?thesis using num_le_trans [OF kn nn Cons.prems(3)] by blast
    next
      case False
      with ck show ?thesis by simp
    qed
    show "\<not> num_lt n k"
    proof (cases b)
      case True
      with ck show ?thesis by simp
    next
      case False
      with b have "\<not> num_lt n a" by simp
      moreover from False ck have "\<not> num_lt a k" by simp
      ultimately show ?thesis using num_le_trans [OF kn Cons.prems(3) nn] by blast
    qed
  qed
  from vp n nk all
  have "list_all (\<lambda>v. \<exists>n. price_number v = Some n \<and> \<not> num_lt n k) (v # vs)"
    by (simp add: price_number_def)
  with k kn ak show ?case by blast
qed

lemma price_number_priced: "price_number (priced x) = num_of x"
  by (simp add: price_number_def priced_def variant_price_def)

lemma div100_int_finite: "div100 (NInt i) = Inr f \<Longrightarrow> is_finite f"
  by (cases "to_double (of_int i / 100)") (auto simp: div100_def)

lemma min_price_SomeD:
  assumes "min_price variants = Inr (Some f)"
  shows "\<exists>vs k. variants = PList vs \<and> list_ex (\<lambda>v. price_number v = Some k) vs \<and>
           div100 k = Inr f \<and> (\<forall>i. k = NInt i \<longrightarrow> is_finite f) \<and>
           (list_all (\<lambda>v. \<exists>n. price_number v = Some n \<and> \<not> is_nan n) vs \<longrightarrow>
              list_all (\<lambda>v. \<exists>n. price_number v = Some n \<and> \<not> num_lt n k) vs)"
proof -
  from assms obtain v vs p m k where vs: "variants = PList (v # vs)"
    and vp: "variant_price v = Inr p" and ml: "min_loop p vs = Inr m"
    and k: "num_of m = Some k" and f: "div100 k = Inr f"
    by (auto simp: min_price_def split: if_splits pyval.splits list.splits sum.splits option.splits)
  from min_loop_member [OF ml]
  have "m = p \<or> (\<exists>w \<in> set vs. variant_price w = Inr m)" by (simp add: list_ex_iff)
  moreover have "price_number v = Some k" if "m = p"
    using that vp k by (simp add: price_number_def)
  moreover have "price_number w = Some k" if "variant_price w = Inr m" for w
    using that k by (simp add: price_number_def)
  ultimately have "\<exists>w \<in> set (v # vs). price_number w = Some k" by auto
  then have ex: "list_ex (\<lambda>v. price_number v = Some k) (v # vs)"
    by (simp only: list_ex_iff)
  have "list_all (\<lambda>v. \<exists>n. price_number v = Some n \<and> \<not> num_lt n k) (v # vs)"
    if nf: "list_all (\<lambda>v. \<exists>n. price_number v = Some n \<and> \<not> is_nan n) (v # vs)"
  proof -
    from nf vp obtain a where a: "num_of p = Some a" and an: "\<not> is_nan a"
      and rest: "list_all (\<lambda>v. \<exists>n. price_number v = Some n \<and> \<not> is_nan n) vs"
      by (auto simp: price_number_def)
    from min_loop_least [OF ml a an rest] k
    have "\<not> num_lt a k"
      and "list_all (\<lambda>v. \<exists>n. price_number v = Some n \<and> \<not> num_lt n k) vs"
      by auto
    with vp a show ?thesis by (simp add: price_number_def)
  qed
  moreover have "\<forall>i. k = NInt i \<longrightarrow> is_finite f"
    using f div100_int_finite by blast
  ultimately show ?thesis using vs ex f by blast
qed

lemma shopify_row_priceD:
  assumes "shopify_row env store_url handle data = Inr r"
  shows "\<exists>variants. dict_get data ''variants'' (PList []) = Inr variants \<and>
           min_price variants = Inr (price r)"
  using assms by (auto simp: shopify_row_def split: sum.splits)

lemma shopify_row_nameD:
  assumes "shopify_row env store_url handle data = Inr r"
  shows "\<exists>t. dict_get data ''title'' (PStr []) = Inr (PStr t) \<and> product_name r = strip t"
  using assms
  by (auto simp: shopify_row_def str_strip_def split: sum.splits pyval.splits)

lemma handles_loop_skip:
  "fetch_payload env store_url h = Inl e \<Longrightarrow>
     handles_loop env store_url (hs1 @ h # hs2) rows = handles_loop env store_url (hs1 @ hs2) rows"
  by (induction hs1 arbitrary: rows) (auto split: sum.splits)

lemma tokens_nonempty: "t \<in> set (tokens s) \<Longrightarrow> t \<noteq> []"
proof (induction s rule: tokens.induct)
  case (1 s)
  let ?r = "dropWhile is_space s"
  show ?case
  proof (cases "?r = []")
    case True
    with "1.prems" show ?thesis by (simp add: tokens.simps [of s])
  next
    case False
    then have hd: "\<not> is_space (hd ?r)" by (rule hd_dropWhile)
    from False "1.prems"
    have "t = takeWhile (\<lambda>c. \<not> is_space c) ?r \<or> t \<in> set (tokens (dropWhile (\<lambda>c. \<not> is_space c) ?r))"
      by (auto simp add: tokens.simps [of s] Let_def split: if_splits)
    then show ?thesis
    proof
      assume t: "t = takeWhile (\<lambda>c. \<not> is_space c) ?r"
      from False hd have "takeWhile (\<lambda>c. \<not> is_space c) ?r \<noteq> []"
        by (cases ?r) auto
      with t show ?thesis by simp
    next
      assume "t \<in> set (tokens (dropWhile (\<lambda>c. \<not> is_space c) ?r))"
      with "1.IH" [OF refl False] show ?thesis .
    qed
  qed
qed

lemma woo_category_nonempty:
  assumes "crd \<in> set (css_product sp)" and "woo_category crd = Inr c"
  shows "c \<noteq> []"
proof -
  from assms(1) obtain ts where ts: "classes crd = Some ts" and "cps ''product'' \<in> set ts"
    by (auto simp: css_product_def css_def split: option.splits)
  then obtain t ts' where cons: "ts = t # ts'" by (cases ts) auto
  from ts obtain v where "ts = tokens v" by (auto simp: classes_def)
  with cons have "t \<noteq> []" using tokens_nonempty [of t v] by simp
  with assms(2) ts cons show ?thesis
    by (auto simp: woo_category_def Let_def split: if_splits)
qed

subsection \<open>Running the example cards\<close>

lemma tokens_examples:
  "tokens (cps ''product type-product'') = [cps ''product'', cps ''type-product'']"
  "tokens (cps ''price'') = [cps ''price'']"
  "tokens (cps ''woocommerce-loop-product__title'') = [cps ''woocommerce-loop-product__title'']"
  by (simp_all add: cps_def tokens.simps is_space_def in_ranges_def space_ranges_def)

lemma class_names_differ:
  "cps ''price'' \<noteq> cps ''woocommerce-loop-product__title''"
  "cps ''woocommerce-loop-product__title'' \<noteq> cps ''price''"
  "cps ''product'' \<noteq> cps ''price''"
  "cps ''product'' \<noteq> cps ''woocommerce-loop-product__title''"
  by (simp_all add: cps_def)

lemmas card_defs = product_card_def plain_card_def price_span_def title_h2_def document_def
  css_def classes_def attr_get_def tokens_examples class_names_differ

lemma css_product_card:
  "css_title (product_card h t p) = [title_h2 t]"
  "css_price (product_card h t p) = [price_span p]"
  "css_link (product_card h t p) = [Elem ''a'' [(''href'', h)] [title_h2 t, price_span p]]"
  "css_img (product_card h t p) = []"
  by (simp_all add: css_title_def css_price_def css_link_def css_img_def card_defs)

lemma css_plain_card:
  "css_title (plain_card t p) = [title_h2 t]"
  "css_price (plain_card t p) = [price_span p]"
  "css_link (plain_card t p) = []"
  by (simp_all add: css_title_def css_price_def css_link_def card_defs)

lemma woo_category_product_card: "woo_category (product_card h t p) = Inr (cps ''product'')"
  by (simp add: woo_category_def card_defs)

lemma get_text_price_span: "get_text (price_span p) = p"
  by (simp add: get_text_def price_span_def)

lemma get_text_strip_title_h2: "get_text_strip (title_h2 t) = strip t"
  by (simp add: get_text_strip_def title_h2_def)

lemma woo_card_product_card:
  "woo_card env shop_url (product_card h t p) =
     (case parse_price p of
        Inl e \<Rightarrow> Inl e
      | Inr pr \<Rightarrow> Inr (Some \<lparr>category = cps ''product'', product_name = strip t,
                              price = Some pr, url = urljoin env shop_url h, image = PStr []\<rparr>))"
  by (simp add: woo_card_def select_one_def css_product_card woo_category_product_card
      get_text_price_span get_text_strip_title_h2 attr_item_def attr_get_def
      split: sum.splits)

lemma css_product_document:
  "css_product (document [product_card h t p]) = [product_card h t p]"
  "css_product (document [product_card h t p, plain_card t' p']) =
     [product_card h t p, plain_card t' p']"
  "css_product (document [product_card h t p, product_card h' t' p']) =
     [product_card h t p, product_card h' t' p']"
  by (simp_all add: css_product_def card_defs)

lemma parse_price_examples:
  "parse_price (8377 # cps ''1,299.50'') = Inr (Finite (129950 / 100))"
  "parse_price (cps ''Contact us'') = Inl AttributeError"
  "parse_price (cps ''$5'') = Inr (Finite 5)"
  "parse_price (cps ''Rs. 500'') = Inl ValueError"
  "parse_price (cps ''Rs.500'') = Inr (Finite (1 / 2))"
  by (simp_all add: parse_price_def search_price_run_def in_price_class_def is_decimal_def
      decimal_of_def decimal_starts_def decimal_value_def cps_def remove_commas_def
      float_of_text_def digits_value_def to_double_examples)

lemma strip_examples: "strip [] = []" "strip (cps ''Mug'') = cps ''Mug''"
  "strip (cps ''Cup'') = cps ''Cup''"
  "strip (cps ''Uncategorised'') = cps ''Uncategorised''"
  by (simp_all add: strip_def cps_def is_space_def in_ranges_def space_ranges_def)

lemma generic_card_product_card:
  "generic_card env cur css_title css_price None None (product_card h t p) =
     (case parse_price p of
        Inl e \<Rightarrow> Inl e
      | Inr pr \<Rightarrow> Inr (Some \<lparr>category = cps ''Uncategorised'', product_name = strip t,
                              price = Some pr, url = urljoin env cur h, image = PStr []\<rparr>))"
  by (simp add: generic_card_def select_one_def css_product_card
      get_text_price_span get_text_strip_title_h2 attr_item_def attr_get_def
      split: sum.splits)

lemma generic_card_plain_card:
  "generic_card env cur css_title css_price None None (plain_card t p) =
     (case parse_price p of
        Inl e \<Rightarrow> Inl e
      | Inr pr \<Rightarrow> Inr (Some \<lparr>category = cps ''Uncategorised'', product_name = strip t,
                              price = Some pr, url = cur, image = PStr []\<rparr>))"
  by (simp add: generic_card_def select_one_def css_plain_card
      get_text_price_span get_text_strip_title_h2 split: sum.splits)

lemma last_page_no_pager:
  "last_page (document [product_card h t p]) = Inr 1"
  by (simp add: last_page_def select_one_def css_pager_def card_defs)

lemma price_text_card_skipped:
  "woo_card env shop_url (product_card h t (cps ''Contact us'')) = Inl AttributeError"
  "generic_card env cur css_title css_price None None (product_card h t (cps ''Contact us'')) = Inl AttributeError"
  by (simp_all add: woo_card_product_card generic_card_product_card parse_price_examples)

lemma search_price_run_SomeD:
  assumes "search_price_run tx = Some r"
  shows "\<exists>pre post. tx = pre @ r @ post \<and> r \<noteq> [] \<and>
           list_all (\<lambda>c. \<not> in_price_class c) pre \<and> list_all in_price_class r \<and>
           (post = [] \<or> \<not> in_price_class (hd post))"
proof -
  let ?pre = "takeWhile (\<lambda>c. \<not> in_price_class c) tx"
  let ?rest = "dropWhile (\<lambda>c. \<not> in_price_class c) tx"
  let ?post = "dropWhile in_price_class ?rest"
  from assms have r: "r = takeWhile in_price_class ?rest" and ne: "r \<noteq> []"
    by (auto simp: search_price_run_def Let_def split: if_splits)
  have "tx = ?pre @ r @ ?post" by (simp add: r)
  moreover have "list_all (\<lambda>c. \<not> in_price_class c) ?pre"
    by (simp add: list_all_iff) (metis set_takeWhileD)
  moreover have "list_all in_price_class r"
    unfolding r by (simp add: list_all_iff) (metis set_takeWhileD)
  moreover have "?post = [] \<or> \<not> in_price_class (hd ?post)"
    by (metis hd_dropWhile)
  ultimately show ?thesis using ne by blast
qed

lemma search_price_run_NoneD:
  assumes "search_price_run tx = None"
  shows "list_all (\<lambda>c. \<not> in_price_class c) tx"
proof -
  from assms have "takeWhile in_price_class (dropWhile (\<lambda>c. \<not> in_price_class c) tx) = []"
    by (auto simp: search_price_run_def Let_def split: if_splits)
  then have "dropWhile (\<lambda>c. \<not> in_price_class c) tx = []"
    by (metis hd_dropWhile takeWhile_eq_Nil_iff)
  then show ?thesis by (simp add: list_all_iff dropWhile_eq_Nil_conv)
qed

lemma search_price_run_examples:
  "search_price_run (8377 # cps ''1,299.50'') = Some (cps ''1,299.50'')"
  "search_price_run (cps ''Contact us'') = None"
  by (simp_all add: search_price_run_def in_price_class_def is_decimal_def
      decimal_of_def decimal_starts_def cps_def)


subsection \<open>Running the example site\<close>

lemma example_env_sel:
  "http_get (example_env site) u =
     (case map_of site u of None \<Rightarrow> Inl RequestException | Some resp \<Rightarrow> Inr resp)"
  "urljoin (example_env site) = example_urljoin"
  "urlparse (example_env site) = example_urlparse"
  "urlunparse (example_env site) = example_urlunparse"
  "unquote (example_env site) t = t"
  "quote_plus (example_env site) t = t"
  by (simp_all add: example_env_def)

lemma markup_sel: "as_lxml (markup n) = n" "as_xml (markup n) = n"
  "as_json (markup n) = Inl JSONDecodeError"
  by (simp_all add: markup_def)

lemma payload_sel: "as_json (payload v) = Inr v"
  by (simp add: payload_def)

lemma example_urljoin_absolute:
  "example_urljoin b (cps ''https://shop.example/p/1'') = cps ''https://shop.example/p/1''"
  "example_urljoin b (cps ''https://shop.example/p/2'') = cps ''https://shop.example/p/2''"
  by (simp_all add: example_urljoin_def cps_def)

lemma woo_one_card:
  "scrape_woocommerce
     (example_env [(cps ''https://shop.example/shop/'',
        markup (document [product_card (cps ''https://shop.example/p/1'') t p]))])
     (cps ''https://shop.example/shop/'') None =
   Inr (case parse_price p of
          Inl e \<Rightarrow> []
        | Inr pr \<Rightarrow> [\<lparr>category = cps ''product'', product_name = strip t, price = Some pr,
                        url = cps ''https://shop.example/p/1'', image = PStr []\<rparr>], [])"
proof -
  let ?doc = "document [product_card (cps ''https://shop.example/p/1'') t p]"
  let ?env = "example_env [(cps ''https://shop.example/shop/'', markup ?doc)]"
  have g: "http_get ?env (cps ''https://shop.example/shop/'') = Inr (markup ?doc)"
    by (simp add: example_env_sel)
  have l: "last_page (as_lxml (markup ?doc)) = Inr 1"
    by (simp add: markup_sel last_page_no_pager)
  show ?thesis
    unfolding scrape_woocommerce_eq [OF g l]
    by (simp add: total_pages_def truthy_int_def markup_sel css_product_document
        List.map_filter_simps woo_row_of_def woo_card_product_card example_env_sel
        example_urljoin_absolute split: sum.splits)
qed

lemma generic_one_card:
  "scrape_generic
     (example_env [(cps ''https://shop.example/list'',
        markup (document [product_card (cps ''https://shop.example/p/1'') t p]))])
     (cps ''https://shop.example/list'') css_product css_title css_price None None =
   Inr (case parse_price p of
          Inl e \<Rightarrow> []
        | Inr pr \<Rightarrow> [\<lparr>category = cps ''Uncategorised'', product_name = strip t,
                        price = Some pr, url = cps ''https://shop.example/p/1'',
                        image = PStr []\<rparr>])"
  by (simp add: scrape_generic_def example_env_sel markup_sel css_product_document
      generic_card_product_card example_urljoin_absolute split: sum.splits)

lemma generic_two_cards:
  "scrape_generic
     (example_env [(cps ''https://shop.example/list'',
        markup (document [product_card (cps ''https://shop.example/p/1'') (cps ''Mug'') (cps ''$5''),
                          plain_card (cps ''Cup'') (cps ''$5'')]))])
     (cps ''https://shop.example/list'') css_product css_title css_price None None =
   Inr [\<lparr>category = cps ''Uncategorised'', product_name = cps ''Mug'', price = Some (Finite 5),
          url = cps ''https://shop.example/p/1'', image = PStr []\<rparr>,
        \<lparr>category = cps ''Uncategorised'', product_name = cps ''Cup'', price = Some (Finite 5),
          url = cps ''https://shop.example/p/1'', image = PStr []\<rparr>]"
  by (simp add: scrape_generic_def example_env_sel markup_sel css_product_document
      generic_card_product_card generic_card_plain_card parse_price_examples
      example_urljoin_absolute strip_examples)


lemma store_urls:
  "example_urljoin (cps ''https://s.example'') (cps ''/sitemap.xml'') = cps ''https://s.example/sitemap.xml''"
  "example_urljoin (cps ''https://s.example'') (cps ''/products/'' @ cps ''mug'' @ cps ''.js'')
     = cps ''https://s.example/products/mug.js''"
  "example_urljoin (cps ''https://s.example'') (cps ''/products/'' @ cps ''cup'' @ cps ''.js'')
     = cps ''https://s.example/products/cup.js''"
  "example_urljoin (cps ''https://s.example'') (cps ''/products/'' @ cps ''mug'')
     = cps ''https://s.example/products/mug''"
  "example_urljoin (cps ''https://s.example'') (cps ''/products/'' @ cps ''cup'')
     = cps ''https://s.example/products/cup''"
  by (simp_all add: example_urljoin_def origin_def cps_def)

lemma store_find_sitemaps:
  "find_sitemaps (store_site payloads) (cps ''https://s.example'') =
     Inr [cps ''https://s.example/sitemap_products_1.xml'']"
  by (simp add: find_sitemaps_def store_site_def example_env_sel store_urls markup_sel
      store_index_def document_def loc_entry_def find_all_def get_text_def)
     (simp add: cps_def)

lemma store_extract_handles:
  "extract_handles (store_site payloads) (cps ''https://s.example/sitemap_products_1.xml'') =
     Inr [cps ''mug'', cps ''cup'']"
  by (simp add: extract_handles_def store_site_def example_env_sel markup_sel
      store_products_def document_def loc_entry_def find_all_def get_text_def)
     (simp add: cps_def path_name_def)

lemma store_fetch_payload:
  "fetch_payload (store_site payloads) (cps ''https://s.example'') (cps ''mug'') =
     (case map_of payloads (cps ''https://s.example/products/mug.js'') of
        None \<Rightarrow> Inl RequestException | Some resp \<Rightarrow> as_json resp)"
  "fetch_payload (store_site payloads) (cps ''https://s.example'') (cps ''cup'') =
     (case map_of payloads (cps ''https://s.example/products/cup.js'') of
        None \<Rightarrow> Inl RequestException | Some resp \<Rightarrow> as_json resp)"
  by (simp_all add: fetch_payload_def store_site_def example_env_sel store_urls)
     (simp_all add: cps_def split: option.splits)

lemma store_scrape:
  "scrape_shopify (store_site payloads) (cps ''https://s.example'') =
     handles_loop (store_site payloads) (cps ''https://s.example'') [cps ''mug'', cps ''cup''] []"
  by (simp add: scrape_shopify_def store_find_sitemaps store_extract_handles split: sum.splits)

lemma div100_examples:
  "div100 (NInt 500) = Inr (Finite 5)"
  "div100 (NInt (- 500)) = Inr (Finite (- 5))"
  "div100 (NInt 19900) = Inr (Finite 199)"
  "div100 (NFloat PosInf) = Inr PosInf"
  "div100 (NFloat NaN) = Inr NaN"
  by (simp_all add: div100_def to_double_examples)

lemma min_price_examples:
  "min_price (PList []) = Inr None"
  "min_price (PList [priced (PInt 500)]) = Inr (Some (Finite 5))"
  "min_price (PList [priced (PInt (- 500))]) = Inr (Some (Finite (- 5)))"
  "min_price (PList [priced (PInt 19900), priced (PInt 24900)]) = Inr (Some (Finite 199))"
  "min_price (PList [priced (PFloat PosInf)]) = Inr (Some PosInf)"
  "min_price (PList [priced (PFloat NaN)]) = Inr (Some NaN)"
  "min_price (PList [PDict []]) = Inl KeyError"
  by (simp_all add: min_price_def priced_def variant_price_def py_lt_def num_lt_def
      div100_examples)

lemma min_price_single:
  "min_price (PList [priced x]) =
     (case num_of x of
        None \<Rightarrow> Inl TypeError
      | Some n \<Rightarrow> (case div100 n of Inl e \<Rightarrow> Inl e | Inr f \<Rightarrow> Inr (Some f)))"
  by (simp add: min_price_def priced_def variant_price_def)

lemma min_price_overflow: "min_price (PList [priced (PInt (10 ^ 402))]) = Inl OverflowError"
  unfolding min_price_single num_of.simps option.case div100_overflow sum.case by (rule refl)

lemma shopify_row_product_json:
  "shopify_row env store_url handle (product_json t vs) =
     (case min_price vs of
        Inl e \<Rightarrow> Inl e
      | Inr pr \<Rightarrow> Inr \<lparr>category = cps ''Uncategorised'', product_name = strip t, price = pr,
                       url = urljoin env store_url (cps ''/products/'' @ handle),
                       image = PStr []\<rparr>)"
  by (simp add: shopify_row_def product_json_def dict_get_def str_strip_def first_image_def
      strip_examples split: sum.splits)

lemma shopify_row_not_object:
  "shopify_row env store_url handle (PList []) = Inl AttributeError"
  by (simp add: shopify_row_def dict_get_def)

lemma payload_urls_differ:
  "cps ''https://s.example/products/cup.js'' \<noteq> cps ''https://s.example/products/mug.js''"
  "cps ''https://s.example/products/mug.js'' \<noteq> cps ''https://s.example/products/cup.js''"
  by (simp_all add: cps_def)

lemma store_negative_price:
  "scrape_shopify
     (store_site [(cps ''https://s.example/products/mug.js'',
                   payload (product_json (cps ''Mug'') (PList [priced (PInt (- 500))])))])
     (cps ''https://s.example'') =
   Inr [\<lparr>category = cps ''Uncategorised'', product_name = cps ''Mug'', price = Some (Finite (- 5)),
          url = cps ''https://s.example/products/mug'', image = PStr []\<rparr>]"
  by (simp add: store_scrape store_fetch_payload payload_urls_differ payload_sel
      shopify_row_product_json min_price_examples strip_examples)
     (simp add: store_site_def example_env_sel store_urls)

lemma store_infinite_price:
  "scrape_shopify
     (store_site [(cps ''https://s.example/products/mug.js'',
                   payload (product_json (cps ''Mug'') (PList [priced (PFloat PosInf)])))])
     (cps ''https://s.example'') =
   Inr [\<lparr>category = cps ''Uncategorised'', product_name = cps ''Mug'', price = Some PosInf,
          url = cps ''https://s.example/products/mug'', image = PStr []\<rparr>]"
  by (simp add: store_scrape store_fetch_payload payload_urls_differ payload_sel
      shopify_row_product_json min_price_examples strip_examples)
     (simp add: store_site_def example_env_sel store_urls)

lemma store_nan_price:
  "scrape_shopify
     (store_site [(cps ''https://s.example/products/mug.js'',
                   payload (product_json (cps ''Mug'') (PList [priced (PFloat NaN)])))])
     (cps ''https://s.example'') =
   Inr [\<lparr>category = cps ''Uncategorised'', product_name = cps ''Mug'', price = Some NaN,
          url = cps ''https://s.example/products/mug'', image = PStr []\<rparr>]"
  by (simp add: store_scrape store_fetch_payload payload_urls_differ payload_sel
      shopify_row_product_json min_price_examples strip_examples)
     (simp add: store_site_def example_env_sel store_urls)

lemma store_mug_raises:
  assumes "min_price vs = Inl e"
  shows "scrape_shopify
     (store_site [(cps ''https://s.example/products/mug.js'',
                   payload (product_json (cps ''Mug'') vs)),
                  (cps ''https://s.example/products/cup.js'',
                   payload (product_json (cps ''Cup'') (PList [priced (PInt 500)])))])
     (cps ''https://s.example'') = Inl e"
  using assms
  by (simp add: store_scrape store_fetch_payload payload_urls_differ payload_sel
      shopify_row_product_json)

lemma store_integer_beyond_doubles:
  "scrape_shopify
     (store_site [(cps ''https://s.example/products/mug.js'',
                   payload (product_json (cps ''Mug'') (PList [priced (PInt (10 ^ 402))]))),
                  (cps ''https://s.example/products/cup.js'',
                   payload (product_json (cps ''Cup'') (PList [priced (PInt 500)])))])
     (cps ''https://s.example'') = Inl OverflowError"
  by (rule store_mug_raises [OF min_price_overflow])

lemma store_not_object:
  "scrape_shopify
     (store_site [(cps ''https://s.example/products/mug.js'', payload (PList [])),
                  (cps ''https://s.example/products/cup.js'',
                   payload (product_json (cps ''Cup'') (PList [priced (PInt 500)])))])
     (cps ''https://s.example'') = Inl AttributeError"
  by (simp add: store_scrape store_fetch_payload payload_urls_differ payload_sel
      shopify_row_not_object)

lemma store_variant_without_price:
  "scrape_shopify
     (store_site [(cps ''https://s.example/products/mug.js'',
                   payload (product_json (cps ''Mug'') (PList [PDict []]))),
                  (cps ''https://s.example/products/cup.js'',
                   payload (product_json (cps ''Cup'') (PList [priced (PInt 500)])))])
     (cps ''https://s.example'') = Inl KeyError"
  by (simp add: store_scrape store_fetch_payload payload_urls_differ payload_sel
      shopify_row_product_json min_price_examples)

lemma store_undecodable_payload:
  "scrape_shopify
     (store_site [(cps ''https://s.example/products/mug.js'', markup (document [])),
                  (cps ''https://s.example/products/cup.js'',
                   payload (product_json (cps ''Cup'') (PList [priced (PInt 500)])))])
     (cps ''https://s.example'') =
   Inr [\<lparr>category = cps ''Uncategorised'', product_name = cps ''Cup'', price = Some (Finite 5),
          url = cps ''https://s.example/products/cup'', image = PStr []\<rparr>]"
  by (simp add: store_scrape store_fetch_payload payload_urls_differ payload_sel markup_sel
      shopify_row_product_json min_price_examples strip_examples)
     (simp add: store_site_def example_env_sel store_urls)

lemma store_unreachable_payload:
  "scrape_shopify
     (store_site [(cps ''https://s.example/products/cup.js'',
                   payload (product_json (cps ''Cup'') (PList [priced (PInt 500)])))])
     (cps ''https://s.example'') =
   Inr [\<lparr>category = cps ''Uncategorised'', product_name = cps ''Cup'', price = Some (Finite 5),
          url = cps ''https://s.example/products/cup'', image = PStr []\<rparr>]"
  by (simp add: store_scrape store_fetch_payload payload_urls_differ payload_sel markup_sel
      shopify_row_product_json min_price_examples strip_examples)
     (simp add: store_site_def example_env_sel store_urls)

lemma no_site:
  "scrape_woocommerce (example_env []) (cps ''https://shop.example/shop/'') None
     = Inl RequestException"
  "scrape_shopify (example_env []) (cps ''https://s.example'') = Inl RequestException"
  "scrape_generic (example_env []) (cps ''https://shop.example/list'')
     css_product css_title css_price None None = Inl RequestException"
  by (simp_all add: scrape_woocommerce_def scrape_shopify_def find_sitemaps_def
      scrape_generic_def example_env_sel)

subsection \<open>Price text\<close>

lemma search_price_run_full_stop:
  "search_price_run (cps ''Rs. 500'') = Some (cps ''.'')"
  "search_price_run (cps ''Rs.500'') = Some (cps ''.500'')"
  by (simp_all add: search_price_run_def in_price_class_def is_decimal_def
      decimal_of_def decimal_starts_def cps_def)

text \<open>
  C9. The claim: price text normalisation in the Woo-style and Generic adapters strips the
  thousands separators and extracts the first numeric run matching an integer-or-decimal
  pattern. The code searches for the first run of digits, commas and full stops, whether
  or not that run is a number. In \<open>Rs. 500\<close> the run is the full stop after \<open>Rs\<close>:
  \<open>float\<close> of it raises ValueError and both adapters skip the card, although the text
  holds the number 500. In \<open>Rs.500\<close> the run is \<open>.500\<close> and the row has the price 0.5.
\<close>

theorem price_text_run_starts_at_full_stop:
  "search_price_run (cps ''Rs. 500'') = Some (cps ''.'') \<and>
   parse_price (cps ''Rs. 500'') = Inl ValueError \<and>
   scrape_woocommerce
     (example_env [(cps ''https://shop.example/shop/'',
        markup (document [product_card (cps ''https://shop.example/p/1'') (cps ''Mug'')
                            (cps ''Rs. 500'')]))])
     (cps ''https://shop.example/shop/'') None = Inr ([], []) \<and>
   scrape_generic
     (example_env [(cps ''https://shop.example/list'',
        markup (document [product_card (cps ''https://shop.example/p/1'') (cps ''Mug'')
                            (cps ''Rs. 500'')]))])
     (cps ''https://shop.example/list'') css_product css_title css_price None None = Inr [] \<and>
   search_price_run (cps ''Rs.500'') = Some (cps ''.500'') \<and>
   parse_price (cps ''Rs.500'') = Inr (Finite (1 / 2)) \<and>
   scrape_woocommerce
     (example_env [(cps ''https://shop.example/shop/'',
        markup (document [product_card (cps ''https://shop.example/p/1'') (cps ''Mug'')
                            (cps ''Rs.500'')]))])
     (cps ''https://shop.example/shop/'') None =
     Inr ([\<lparr>category = cps ''product'', product_name = cps ''Mug'',
             price = Some (Finite (1 / 2)), url = cps ''https://shop.example/p/1'',
             image = PStr []\<rparr>], [])"
  by (simp add: woo_one_card generic_one_card parse_price_examples search_price_run_full_stop
      strip_examples)

subsection \<open>Prices of rows\<close>

lemma woo_rows_have_price:
  assumes "scrape_woocommerce env shop_url max_pages = Inr (rows, skipped)"
  shows "list_all (\<lambda>r. \<exists>f. price r = Some f \<and> nonneg f) rows"
  unfolding list_all_iff
proof
  fix r assume "r \<in> set rows"
  from woo_row_provenance [OF assms this] obtain crd where "woo_card env shop_url crd = Inr (Some r)"
    by blast
  from woo_card_SomeD [OF this] show "\<exists>f. price r = Some f \<and> nonneg f"
    by (auto dest: parse_price_nonneg)
qed

lemma generic_rows_have_price:
  assumes "scrape_generic env page_url sel_prod sn sp sc si = Inr rows"
  shows "list_all (\<lambda>r. \<exists>f. price r = Some f \<and> nonneg f) rows"
  unfolding list_all_iff
proof
  fix r assume "r \<in> set rows"
  from generic_row_provenance [OF assms this] obtain crd c
    where "generic_card env c sn sp sc si crd = Inr (Some r)"
    by blast
  from generic_card_SomeD [OF this] show "\<exists>f. price r = Some f \<and> nonneg f"
    by (auto dest: parse_price_nonneg)
qed

lemma woo_card_price_fails:
  assumes "select_one css_price crd = Some p" and "parse_price (get_text p) = Inl e"
  shows "woo_row_of env shop_url crd = None"
  using assms
  by (auto simp: woo_row_of_def woo_card_def Let_def split: option.splits sum.splits)

lemma generic_card_price_fails:
  assumes "select_one sp crd = Some p" and "parse_price (get_text p) = Inl e"
  shows "generic_card env cur sn sp sc si crd \<noteq> Inr (Some r)"
  using assms
  by (auto simp: generic_card_def Let_def split: option.splits sum.splits)

lemma shopify_row_no_variants:
  assumes "dict_get data ''variants'' (PList []) = Inr (PList [])"
    and "shopify_row env store_url handle data = Inr r"
  shows "price r = None"
  using assms
  by (auto simp: shopify_row_def min_price_def split: sum.splits)

lemma shopify_row_no_variants_example:
  "shopify_row env store_url handle
     (PDict [(''title'', PStr (cps ''Mug'')), (''variants'', PList [])]) =
   Inr \<lparr>category = cps ''Uncategorised'', product_name = cps ''Mug'', price = None,
        url = urljoin env store_url (cps ''/products/'' @ handle), image = PStr []\<rparr>"
  by (simp add: shopify_row_def dict_get_def str_strip_def min_price_def first_image_def
      strip_examples)

text \<open>
  C10. The Woo-style and Generic adapters never emit a row with no price: every row they
  emit has one, and a card whose price element is found but whose text gives no number
  contributes no row. A row of the Sitemap/API adapter has no price when the payload's
  list of variants is empty.
\<close>

theorem woo_generic_rows_have_price:
  "(scrape_woocommerce env shop_url max_pages = Inr (rows, skipped) \<longrightarrow>
      list_all (\<lambda>r. price r \<noteq> None) rows) \<and>
   (scrape_generic env page_url sel_prod sn sp sc si = Inr rows' \<longrightarrow>
      list_all (\<lambda>r. price r \<noteq> None) rows') \<and>
   (select_one css_price crd = Some p \<and> parse_price (get_text p) = Inl e \<longrightarrow>
      woo_row_of env shop_url crd = None) \<and>
   (select_one sp crd = Some p \<and> parse_price (get_text p) = Inl e \<longrightarrow>
      (\<forall>r. generic_card env cur sn sp sc si crd \<noteq> Inr (Some r))) \<and>
   (dict_get data ''variants'' (PList []) = Inr (PList []) \<and>
    shopify_row env store_url handle data = Inr r \<longrightarrow> price r = None)"
proof -
  have "scrape_woocommerce env shop_url max_pages = Inr (rows, skipped) \<longrightarrow>
      list_all (\<lambda>r. price r \<noteq> None) rows"
    using woo_rows_have_price [of env shop_url max_pages rows skipped]
    by (auto simp: list_all_iff)
  moreover have "scrape_generic env page_url sel_prod sn sp sc si = Inr rows' \<longrightarrow>
      list_all (\<lambda>r. price r \<noteq> None) rows'"
    using generic_rows_have_price [of env page_url sel_prod sn sp sc si rows']
    by (auto simp: list_all_iff)
  ultimately show ?thesis
    using woo_card_price_fails [of crd p e env shop_url]
      generic_card_price_fails [of sp crd p e env cur sn sc si]
      shopify_row_no_variants [of data env store_url handle r]
    by blast
qed

theorem woo_generic_rows_have_price_witness:
  "scrape_woocommerce
     (example_env [(cps ''https://shop.example/shop/'',
        markup (document [product_card (cps ''https://shop.example/p/1'') (cps ''Mug'') (cps ''$5'')]))])
     (cps ''https://shop.example/shop/'') None =
     Inr ([\<lparr>category = cps ''product'', product_name = cps ''Mug'', price = Some (Finite 5),
             url = cps ''https://shop.example/p/1'', image = PStr []\<rparr>], []) \<and>
   price \<lparr>category = cps ''product'', product_name = cps ''Mug'', price = Some (Finite 5),
          url = cps ''https://shop.example/p/1'', image = PStr []\<rparr> \<noteq> None \<and>
   scrape_generic
     (example_env [(cps ''https://shop.example/list'',
        markup (document [product_card (cps ''https://shop.example/p/1'') (cps ''Mug'') (cps ''$5''),
                          plain_card (cps ''Cup'') (cps ''$5'')]))])
     (cps ''https://shop.example/list'') css_product css_title css_price None None =
     Inr [\<lparr>category = cps ''Uncategorised'', product_name = cps ''Mug'', price = Some (Finite 5),
            url = cps ''https://shop.example/p/1'', image = PStr []\<rparr>,
          \<lparr>category = cps ''Uncategorised'', product_name = cps ''Cup'', price = Some (Finite 5),
            url = cps ''https://shop.example/p/1'', image = PStr []\<rparr>] \<and>
   select_one css_price (product_card [] (cps ''Mug'') (cps ''Contact us''))
     = Some (price_span (cps ''Contact us'')) \<and>
   parse_price (get_text (price_span (cps ''Contact us''))) = Inl AttributeError \<and>
   woo_row_of (example_env []) [] (product_card [] (cps ''Mug'') (cps ''Contact us'')) = None \<and>
   generic_card (example_env []) [] css_title css_price None None
     (product_card [] (cps ''Mug'') (cps ''Contact us'')) \<noteq> Inr (Some \<lparr>category = cps ''Uncategorised'', product_name = cps ''Mug'',
          price = Some (Finite 5), url = [], image = PStr []\<rparr>) \<and>
   dict_get (PDict [(''title'', PStr (cps ''Mug'')), (''variants'', PList [])]) ''variants'' (PList [])
     = Inr (PList []) \<and>
   price \<lparr>category = cps ''Uncategorised'', product_name = cps ''Mug'', price = None,
        url = urljoin (example_env []) [] (cps ''/products/'' @ cps ''mug''), image = PStr []\<rparr> = None"
  using woo_generic_rows_have_price
    [where env = "example_env [(cps ''https://shop.example/shop/'',
        markup (document [product_card (cps ''https://shop.example/p/1'') (cps ''Mug'') (cps ''$5'')]))]"
      and shop_url = "cps ''https://shop.example/shop/''" and max_pages = None
      and rows = "[\<lparr>category = cps ''product'', product_name = cps ''Mug'', price = Some (Finite 5),
             url = cps ''https://shop.example/p/1'', image = PStr []\<rparr>]" and skipped = "[]"]
    woo_generic_rows_have_price
    [where env = "example_env [(cps ''https://shop.example/list'',
        markup (document [product_card (cps ''https://shop.example/p/1'') (cps ''Mug'') (cps ''$5''),
                          plain_card (cps ''Cup'') (cps ''$5'')]))]"
      and page_url = "cps ''https://shop.example/list''" and sel_prod = css_product
      and sn = css_title and sp = css_price and sc = None and si = None
      and rows' = "[\<lparr>category = cps ''Uncategorised'', product_name = cps ''Mug'', price = Some (Finite 5),
            url = cps ''https://shop.example/p/1'', image = PStr []\<rparr>,
          \<lparr>category = cps ''Uncategorised'', product_name = cps ''Cup'', price = Some (Finite 5),
            url = cps ''https://shop.example/p/1'', image = PStr []\<rparr>]"]
    woo_generic_rows_have_price
    [where env = "example_env []" and shop_url = "[]" and cur = "[]"
      and crd = "product_card [] (cps ''Mug'') (cps ''Contact us'')"
      and p = "price_span (cps ''Contact us'')" and e = AttributeError
      and sn = css_title and sp = css_price and sc = None and si = None
      and data = "PDict [(''title'', PStr (cps ''Mug'')), (''variants'', PList [])]"
      and store_url = "[]" and handle = "cps ''mug''"
      and r = "\<lparr>category = cps ''Uncategorised'', product_name = cps ''Mug'', price = None,
        url = urljoin (example_env []) [] (cps ''/products/'' @ cps ''mug''), image = PStr []\<rparr>"]
  by (simp add: woo_one_card generic_two_cards parse_price_examples strip_examples
      select_one_def css_product_card get_text_price_span shopify_row_no_variants_example
      dict_get_def)

lemma shopify_rows_price:
  assumes "scrape_shopify env store_url = Inr rows"
  shows "list_all (\<lambda>r. price r = None \<or>
           (\<exists>f h d vs k. price r = Some f \<and> fetch_payload env store_url h = Inr d \<and>
              dict_get d ''variants'' (PList []) = Inr (PList vs) \<and>
              list_ex (\<lambda>v. price_number v = Some k) vs \<and> div100 k = Inr f \<and>
              (\<forall>i. k = NInt i \<longrightarrow> is_finite f) \<and>
              (list_all (\<lambda>v. \<exists>n. price_number v = Some n \<and> \<not> is_nan n) vs \<longrightarrow>
                 list_all (\<lambda>v. \<exists>n. price_number v = Some n \<and> \<not> num_lt n k) vs)))
         rows"
proof (rule iffD2 [OF list_all_iff], rule ballI)
  fix r assume "r \<in> set rows"
  from shopify_row_provenance [OF assms this] obtain h d
    where f: "fetch_payload env store_url h = Inr d" and row: "shopify_row env store_url h d = Inr r"
    by blast
  from shopify_row_priceD [OF row] obtain variants
    where g: "dict_get d ''variants'' (PList []) = Inr variants" and m: "min_price variants = Inr (price r)"
    by blast
  show "price r = None \<or>
           (\<exists>f h d vs k. price r = Some f \<and> fetch_payload env store_url h = Inr d \<and>
              dict_get d ''variants'' (PList []) = Inr (PList vs) \<and>
              list_ex (\<lambda>v. price_number v = Some k) vs \<and> div100 k = Inr f \<and>
              (\<forall>i. k = NInt i \<longrightarrow> is_finite f) \<and>
              (list_all (\<lambda>v. \<exists>n. price_number v = Some n \<and> \<not> is_nan n) vs \<longrightarrow>
                 list_all (\<lambda>v. \<exists>n. price_number v = Some n \<and> \<not> num_lt n k) vs))"
  proof (cases "price r")
    case None
    then show ?thesis by simp
  next
    case (Some x)
    with m have "min_price variants = Inr (Some x)" by simp
    from min_price_SomeD [OF this] f g Some show ?thesis by blast
  qed
qed

lemma woo_huge_price:
  "scrape_woocommerce
     (example_env [(cps ''https://shop.example/shop/'',
        markup (document [product_card (cps ''https://shop.example/p/1'') (cps ''Mug'')
                            (cps ''1'' @ replicate 400 48)]))])
     (cps ''https://shop.example/shop/'') None =
   Inr ([\<lparr>category = cps ''product'', product_name = cps ''Mug'', price = Some PosInf,
           url = cps ''https://shop.example/p/1'', image = PStr []\<rparr>], [])"
  by (simp add: woo_one_card parse_price_one_zeros strip_examples)

lemma generic_huge_price:
  "scrape_generic
     (example_env [(cps ''https://shop.example/list'',
        markup (document [product_card (cps ''https://shop.example/p/1'') (cps ''Mug'')
                            (cps ''1'' @ replicate 400 48)]))])
     (cps ''https://shop.example/list'') css_product css_title css_price None None =
   Inr [\<lparr>category = cps ''Uncategorised'', product_name = cps ''Mug'', price = Some PosInf,
          url = cps ''https://shop.example/p/1'', image = PStr []\<rparr>]"
  by (simp add: generic_one_card parse_price_one_zeros strip_examples)

text \<open>
  C5. The claim: the price of every emitted row is absent or a finite number that is at
  least 0, whatever the variant prices of a Sitemap/API payload are. No adapter checks a
  price. The Sitemap/API adapter divides the least variant price by 100: the payload
  \<open>{"title": "Mug", "variants": [{"price": -500}]}\<close> gives a row with the price -5, the
  variant price \<open>1e999\<close> (which \<open>json()\<close> reads as the infinite double) gives an infinite
  price and the variant price \<open>NaN\<close> gives a nan. The Woo-style and Generic adapters read
  the price with \<open>float\<close>: for a price text that is the digit 1 followed by 400 zeros
  (code point 48) the price of the row is infinite.
\<close>

theorem negative_infinite_and_nan_prices_emitted:
  "scrape_shopify
     (store_site [(cps ''https://s.example/products/mug.js'',
                   payload (product_json (cps ''Mug'') (PList [priced (PInt (- 500))])))])
     (cps ''https://s.example'') =
   Inr [\<lparr>category = cps ''Uncategorised'', product_name = cps ''Mug'', price = Some (Finite (- 5)),
          url = cps ''https://s.example/products/mug'', image = PStr []\<rparr>] \<and>
   is_finite (Finite (- 5)) \<and> \<not> nonneg (Finite (- 5)) \<and>
   scrape_shopify
     (store_site [(cps ''https://s.example/products/mug.js'',
                   payload (product_json (cps ''Mug'') (PList [priced (PFloat PosInf)])))])
     (cps ''https://s.example'') =
   Inr [\<lparr>category = cps ''Uncategorised'', product_name = cps ''Mug'', price = Some PosInf,
          url = cps ''https://s.example/products/mug'', image = PStr []\<rparr>] \<and>
   \<not> is_finite PosInf \<and>
   scrape_shopify
     (store_site [(cps ''https://s.example/products/mug.js'',
                   payload (product_json (cps ''Mug'') (PList [priced (PFloat NaN)])))])
     (cps ''https://s.example'') =
   Inr [\<lparr>category = cps ''Uncategorised'', product_name = cps ''Mug'', price = Some NaN,
          url = cps ''https://s.example/products/mug'', image = PStr []\<rparr>] \<and>
   \<not> is_finite NaN \<and> \<not> nonneg NaN \<and>
   scrape_woocommerce
     (example_env [(cps ''https://shop.example/shop/'',
        markup (document [product_card (cps ''https://shop.example/p/1'') (cps ''Mug'')
                            (cps ''1'' @ replicate 400 48)]))])
     (cps ''https://shop.example/shop/'') None =
   Inr ([\<lparr>category = cps ''product'', product_name = cps ''Mug'', price = Some PosInf,
           url = cps ''https://shop.example/p/1'', image = PStr []\<rparr>], []) \<and>
   scrape_generic
     (example_env [(cps ''https://shop.example/list'',
        markup (document [product_card (cps ''https://shop.example/p/1'') (cps ''Mug'')
                            (cps ''1'' @ replicate 400 48)]))])
     (cps ''https://shop.example/list'') css_product css_title css_price None None =
   Inr [\<lparr>category = cps ''Uncategorised'', product_name = cps ''Mug'', price = Some PosInf,
          url = cps ''https://shop.example/p/1'', image = PStr []\<rparr>]"
  by (simp add: store_negative_price store_infinite_price store_nan_price woo_huge_price
      generic_huge_price)

text \<open>
  C5, as the code has it. Every row of the Woo-style and Generic adapters has a price,
  and it is at least 0: a finite double or the positive infinity, never a nan. The price
  of a row of the Sitemap/API adapter is absent, or it is the price of one of the
  payload's variants divided by 100 (rounded to a double): it may be negative, infinite
  or a nan, as that variant price is, and it is finite when that variant price is an
  integer. When no variant price of the payload is a nan, no variant has a smaller
  price than that one.
\<close>

theorem row_prices:
  "(scrape_woocommerce env shop_url max_pages = Inr (rows, skipped) \<longrightarrow>
      list_all (\<lambda>r. \<exists>f. price r = Some f \<and> nonneg f) rows) \<and>
   (scrape_generic env page_url sel_prod sn sp sc si = Inr rows' \<longrightarrow>
      list_all (\<lambda>r. \<exists>f. price r = Some f \<and> nonneg f) rows') \<and>
   (scrape_shopify env store_url = Inr rows'' \<longrightarrow>
      list_all (\<lambda>r. price r = None \<or>
           (\<exists>f h d vs k. price r = Some f \<and> fetch_payload env store_url h = Inr d \<and>
              dict_get d ''variants'' (PList []) = Inr (PList vs) \<and>
              list_ex (\<lambda>v. price_number v = Some k) vs \<and> div100 k = Inr f \<and>
              (\<forall>i. k = NInt i \<longrightarrow> is_finite f) \<and>
              (list_all (\<lambda>v. \<exists>n. price_number v = Some n \<and> \<not> is_nan n) vs \<longrightarrow>
                 list_all (\<lambda>v. \<exists>n. price_number v = Some n \<and> \<not> num_lt n k) vs)))
         rows'')"
  using woo_rows_have_price [of env shop_url max_pages rows skipped]
    generic_rows_have_price [of env page_url sel_prod sn sp sc si rows']
    shopify_rows_price [of env store_url rows'']
  by blast

theorem row_prices_witness:
  "scrape_woocommerce
     (example_env [(cps ''https://shop.example/shop/'',
        markup (document [product_card (cps ''https://shop.example/p/1'') (cps ''Mug'') (cps ''$5'')]))])
     (cps ''https://shop.example/shop/'') None =
     Inr ([\<lparr>category = cps ''product'', product_name = cps ''Mug'', price = Some (Finite 5),
             url = cps ''https://shop.example/p/1'', image = PStr []\<rparr>], []) \<and>
   list_all (\<lambda>r. \<exists>f. price r = Some f \<and> nonneg f)
     [\<lparr>category = cps ''product'', product_name = cps ''Mug'', price = Some (Finite 5),
             url = cps ''https://shop.example/p/1'', image = PStr []\<rparr>] \<and>
   scrape_generic
     (example_env [(cps ''https://shop.example/list'',
        markup (document [product_card (cps ''https://shop.example/p/1'') (cps ''Mug'') (cps ''$5''),
                          plain_card (cps ''Cup'') (cps ''$5'')]))])
     (cps ''https://shop.example/list'') css_product css_title css_price None None =
     Inr [\<lparr>category = cps ''Uncategorised'', product_name = cps ''Mug'', price = Some (Finite 5),
            url = cps ''https://shop.example/p/1'', image = PStr []\<rparr>,
          \<lparr>category = cps ''Uncategorised'', product_name = cps ''Cup'', price = Some (Finite 5),
            url = cps ''https://shop.example/p/1'', image = PStr []\<rparr>] \<and>
   list_all (\<lambda>r. \<exists>f. price r = Some f \<and> nonneg f)
     [\<lparr>category = cps ''Uncategorised'', product_name = cps ''Mug'', price = Some (Finite 5),
            url = cps ''https://shop.example/p/1'', image = PStr []\<rparr>,
          \<lparr>category = cps ''Uncategorised'', product_name = cps ''Cup'', price = Some (Finite 5),
            url = cps ''https://shop.example/p/1'', image = PStr []\<rparr>] \<and>
   scrape_shopify
     (store_site [(cps ''https://s.example/products/mug.js'',
                   payload (product_json (cps ''Mug'') (PList [priced (PInt (- 500))])))])
     (cps ''https://s.example'') =
   Inr [\<lparr>category = cps ''Uncategorised'', product_name = cps ''Mug'', price = Some (Finite (- 5)),
          url = cps ''https://s.example/products/mug'', image = PStr []\<rparr>] \<and>
   list_ex (\<lambda>v. price_number v = Some (NInt (- 500))) [priced (PInt (- 500))] \<and>
   div100 (NInt (- 500)) = Inr (Finite (- 5)) \<and> is_finite (Finite (- 5)) \<and>
   list_all (\<lambda>v. \<exists>n. price_number v = Some n \<and> \<not> num_lt n (NInt (- 500)))
     [priced (PInt (- 500))]"
  using row_prices
    [where env = "example_env [(cps ''https://shop.example/shop/'',
        markup (document [product_card (cps ''https://shop.example/p/1'') (cps ''Mug'') (cps ''$5'')]))]"
      and shop_url = "cps ''https://shop.example/shop/''" and max_pages = None
      and rows = "[\<lparr>category = cps ''product'', product_name = cps ''Mug'', price = Some (Finite 5),
             url = cps ''https://shop.example/p/1'', image = PStr []\<rparr>]" and skipped = "[]"]
    row_prices
    [where env = "example_env [(cps ''https://shop.example/list'',
        markup (document [product_card (cps ''https://shop.example/p/1'') (cps ''Mug'') (cps ''$5''),
                          plain_card (cps ''Cup'') (cps ''$5'')]))]"
      and page_url = "cps ''https://shop.example/list''" and sel_prod = css_product
      and sn = css_title and sp = css_price and sc = None and si = None
      and rows' = "[\<lparr>category = cps ''Uncategorised'', product_name = cps ''Mug'', price = Some (Finite 5),
            url = cps ''https://shop.example/p/1'', image = PStr []\<rparr>,
          \<lparr>category = cps ''Uncategorised'', product_name = cps ''Cup'', price = Some (Finite 5),
            url = cps ''https://shop.example/p/1'', image = PStr []\<rparr>]"]
    row_prices
    [where env = "store_site [(cps ''https://s.example/products/mug.js'',
                   payload (product_json (cps ''Mug'') (PList [priced (PInt (- 500))])))]"
      and store_url = "cps ''https://s.example''"
      and rows'' = "[\<lparr>category = cps ''Uncategorised'', product_name = cps ''Mug'', price = Some (Finite (- 5)),
          url = cps ''https://s.example/products/mug'', image = PStr []\<rparr>]"]
  by (simp add: woo_one_card generic_two_cards parse_price_examples strip_examples
      store_negative_price div100_examples price_number_priced num_lt_def)

text \<open>
  C4. The claim: in the Generic adapter a row's URL is the href of the card's first
  anchor resolved against the URL of the fetched page, and the page URL itself for a card
  with no anchor, whatever cards came before. The code keeps the resolved URL in the
  variable \<open>url\<close> that also holds the page URL, so from the second row on the base is the
  URL of the row before. For the page \<open>https://shop.example/list\<close> with a first card that
  links to \<open>https://shop.example/p/1\<close> and a second card with no anchor, the second row's
  URL is \<open>https://shop.example/p/1\<close>, not the page URL.
\<close>

theorem generic_url_follows_previous_card:
  "scrape_generic
     (example_env [(cps ''https://shop.example/list'',
        markup (document [product_card (cps ''https://shop.example/p/1'') (cps ''Mug'') (cps ''$5''),
                          plain_card (cps ''Cup'') (cps ''$5'')]))])
     (cps ''https://shop.example/list'') css_product css_title css_price None None =
   Inr [\<lparr>category = cps ''Uncategorised'', product_name = cps ''Mug'', price = Some (Finite 5),
          url = cps ''https://shop.example/p/1'', image = PStr []\<rparr>,
        \<lparr>category = cps ''Uncategorised'', product_name = cps ''Cup'', price = Some (Finite 5),
          url = cps ''https://shop.example/p/1'', image = PStr []\<rparr>] \<and>
   cps ''https://shop.example/p/1'' \<noteq> cps ''https://shop.example/list''"
  by (simp add: generic_two_cards) (simp add: cps_def)

subsection \<open>Names of rows\<close>

lemma woo_rows_name:
  assumes "scrape_woocommerce env shop_url max_pages = Inr (rows, skipped)"
  shows "list_all (\<lambda>r. \<exists>u resp crd n. http_get env u = Inr resp \<and>
           crd \<in> set (css_product (as_lxml resp)) \<and> select_one css_title crd = Some n \<and>
           product_name r = get_text_strip n) rows"
proof (rule iffD2 [OF list_all_iff], rule ballI)
  fix r assume "r \<in> set rows"
  from woo_row_provenance [OF assms this] obtain u resp crd
    where "http_get env u = Inr resp" and "crd \<in> set (css_product (as_lxml resp))"
      and c: "woo_card env shop_url crd = Inr (Some r)"
    by blast
  moreover from woo_card_SomeD [OF c] obtain n
    where "select_one css_title crd = Some n" and "product_name r = get_text_strip n"
    by blast
  ultimately show "\<exists>u resp crd n. http_get env u = Inr resp \<and>
           crd \<in> set (css_product (as_lxml resp)) \<and> select_one css_title crd = Some n \<and>
           product_name r = get_text_strip n"
    by blast
qed

lemma generic_rows_name:
  assumes "scrape_generic env page_url sel_prod sn sp sc si = Inr rows"
  shows "list_all (\<lambda>r. \<exists>resp crd n. http_get env page_url = Inr resp \<and>
           crd \<in> set (sel_prod (as_lxml resp)) \<and> select_one sn crd = Some n \<and>
           product_name r = get_text_strip n) rows"
proof (rule iffD2 [OF list_all_iff], rule ballI)
  fix r assume "r \<in> set rows"
  from generic_row_provenance [OF assms this] obtain resp crd c
    where "http_get env page_url = Inr resp" and "crd \<in> set (sel_prod (as_lxml resp))"
      and c: "generic_card env c sn sp sc si crd = Inr (Some r)"
    by blast
  moreover from generic_card_SomeD [OF c] obtain n
    where "select_one sn crd = Some n" and "product_name r = get_text_strip n"
    by blast
  ultimately show "\<exists>resp crd n. http_get env page_url = Inr resp \<and>
           crd \<in> set (sel_prod (as_lxml resp)) \<and> select_one sn crd = Some n \<and>
           product_name r = get_text_strip n"
    by blast
qed

lemma shopify_rows_name:
  assumes "scrape_shopify env store_url = Inr rows"
  shows "list_all (\<lambda>r. \<exists>h d t. fetch_payload env store_url h = Inr d \<and>
           dict_get d ''title'' (PStr []) = Inr (PStr t) \<and> product_name r = strip t) rows"
proof (rule iffD2 [OF list_all_iff], rule ballI)
  fix r assume "r \<in> set rows"
  from shopify_row_provenance [OF assms this] obtain h d
    where f: "fetch_payload env store_url h = Inr d" and row: "shopify_row env store_url h d = Inr r"
    by blast
  from shopify_row_nameD [OF row] f
  show "\<exists>h d t. fetch_payload env store_url h = Inr d \<and>
           dict_get d ''title'' (PStr []) = Inr (PStr t) \<and> product_name r = strip t"
    by blast
qed

lemma no_name_element:
  "select_one css_title crd = None \<Longrightarrow> woo_row_of env shop_url crd = None"
  "select_one sn crd = None \<Longrightarrow> generic_card env cur sn sp sc si crd = Inr None"
  by (auto simp: woo_row_of_def woo_card_def generic_card_def Let_def
      split: option.splits sum.splits)

lemma store_no_title:
  "scrape_shopify
     (store_site [(cps ''https://s.example/products/mug.js'',
                   payload (PDict [(''variants'', PList [priced (PInt 500)])]))])
     (cps ''https://s.example'') =
   Inr [\<lparr>category = cps ''Uncategorised'', product_name = [], price = Some (Finite 5),
          url = cps ''https://s.example/products/mug'', image = PStr []\<rparr>]"
  by (simp add: store_scrape store_fetch_payload payload_urls_differ payload_sel
      shopify_row_def dict_get_def str_strip_def first_image_def
      min_price_examples strip_examples)
     (simp add: store_site_def example_env_sel store_urls)


lemma bare_card_no_title:
  "select_one css_title (Elem ''li'' [(''class'', cps ''product'')] []) = None"
  "select_one css_price (Elem ''li'' [(''class'', cps ''product'')] []) = None"
  by (simp_all add: select_one_def css_title_def css_price_def css_def)

text \<open>
  C1. The claim: no adapter ever emits a record with an empty name; a card or payload
  with no name to extract gives no record. The Woo-style and Generic adapters only ask
  that the name element be there, the Sitemap/API adapter takes the empty string for a
  missing title, and none of them looks at the text it got: a card whose title element
  is empty, and a payload with no title, each give a record whose name is empty.
\<close>

theorem records_with_empty_name_emitted:
  "scrape_woocommerce
     (example_env [(cps ''https://shop.example/shop/'',
        markup (document [product_card (cps ''https://shop.example/p/1'') [] (cps ''$5'')]))])
     (cps ''https://shop.example/shop/'') None =
     Inr ([\<lparr>category = cps ''product'', product_name = [], price = Some (Finite 5),
             url = cps ''https://shop.example/p/1'', image = PStr []\<rparr>], []) \<and>
   scrape_shopify
     (store_site [(cps ''https://s.example/products/mug.js'',
                   payload (PDict [(''variants'', PList [priced (PInt 500)])]))])
     (cps ''https://s.example'') =
     Inr [\<lparr>category = cps ''Uncategorised'', product_name = [], price = Some (Finite 5),
            url = cps ''https://s.example/products/mug'', image = PStr []\<rparr>]"
  by (simp add: woo_one_card store_no_title parse_price_examples strip_examples)

text \<open>
  C1, as the code has it. In the Woo-style and Generic adapters a card in which the name
  selector finds no element gives no record, and the name of every emitted record is
  the stripped text of the name element of a card of a fetched page. In the Sitemap/API
  adapter the name of every emitted record is the stripped title of a fetched payload,
  the empty string standing for a title that is missing.
\<close>

theorem row_names:
  "(scrape_woocommerce env shop_url max_pages = Inr (rows, skipped) \<longrightarrow>
      list_all (\<lambda>r. \<exists>u resp crd n. http_get env u = Inr resp \<and>
           crd \<in> set (css_product (as_lxml resp)) \<and> select_one css_title crd = Some n \<and>
           product_name r = get_text_strip n) rows) \<and>
   (select_one css_title crd = None \<longrightarrow> woo_row_of env shop_url crd = None) \<and>
   (scrape_generic env page_url sel_prod sn sp sc si = Inr rows' \<longrightarrow>
      list_all (\<lambda>r. \<exists>resp crd n. http_get env page_url = Inr resp \<and>
           crd \<in> set (sel_prod (as_lxml resp)) \<and> select_one sn crd = Some n \<and>
           product_name r = get_text_strip n) rows') \<and>
   (select_one sn crd = None \<longrightarrow> generic_card env cur sn sp sc si crd = Inr None) \<and>
   (scrape_shopify env store_url = Inr rows'' \<longrightarrow>
      list_all (\<lambda>r. \<exists>h d t. fetch_payload env store_url h = Inr d \<and>
           dict_get d ''title'' (PStr []) = Inr (PStr t) \<and> product_name r = strip t) rows'')"
  using woo_rows_name [of env shop_url max_pages rows skipped]
    generic_rows_name [of env page_url sel_prod sn sp sc si rows']
    shopify_rows_name [of env store_url rows'']
    no_name_element(1) [of crd env shop_url]
    no_name_element(2) [of sn crd env cur sp sc si]
  by blast

theorem row_names_witness:
  "list_all (\<lambda>r. \<exists>u resp crd n.
        http_get (example_env [(cps ''https://shop.example/shop/'',
          markup (document [product_card (cps ''https://shop.example/p/1'') (cps ''Mug'') (cps ''$5'')]))]) u
          = Inr resp \<and>
        crd \<in> set (css_product (as_lxml resp)) \<and> select_one css_title crd = Some n \<and>
        product_name r = get_text_strip n)
     [\<lparr>category = cps ''product'', product_name = cps ''Mug'', price = Some (Finite 5),
        url = cps ''https://shop.example/p/1'', image = PStr []\<rparr>] \<and>
   woo_row_of (example_env []) [] (Elem ''li'' [(''class'', cps ''product'')] []) = None \<and>
   list_all (\<lambda>r. \<exists>resp crd n.
        http_get (example_env [(cps ''https://shop.example/list'',
          markup (document [product_card (cps ''https://shop.example/p/1'') (cps ''Mug'') (cps ''$5''),
                            plain_card (cps ''Cup'') (cps ''$5'')]))])
          (cps ''https://shop.example/list'') = Inr resp \<and>
        crd \<in> set (css_product (as_lxml resp)) \<and> select_one css_title crd = Some n \<and>
        product_name r = get_text_strip n)
     [\<lparr>category = cps ''Uncategorised'', product_name = cps ''Mug'', price = Some (Finite 5),
        url = cps ''https://shop.example/p/1'', image = PStr []\<rparr>,
      \<lparr>category = cps ''Uncategorised'', product_name = cps ''Cup'', price = Some (Finite 5),
        url = cps ''https://shop.example/p/1'', image = PStr []\<rparr>] \<and>
   generic_card (example_env []) [] css_title css_price None None
     (Elem ''li'' [(''class'', cps ''product'')] []) = Inr None \<and>
   list_all (\<lambda>r. \<exists>h d t.
        fetch_payload (store_site [(cps ''https://s.example/products/mug.js'',
                   payload (PDict [(''variants'', PList [priced (PInt 500)])]))])
          (cps ''https://s.example'') h = Inr d \<and>
        dict_get d ''title'' (PStr []) = Inr (PStr t) \<and> product_name r = strip t)
     [\<lparr>category = cps ''Uncategorised'', product_name = [], price = Some (Finite 5),
        url = cps ''https://s.example/products/mug'', image = PStr []\<rparr>]"
proof -
  let ?W = "example_env [(cps ''https://shop.example/shop/'',
          markup (document [product_card (cps ''https://shop.example/p/1'') (cps ''Mug'') (cps ''$5'')]))]"
  let ?G = "example_env [(cps ''https://shop.example/list'',
          markup (document [product_card (cps ''https://shop.example/p/1'') (cps ''Mug'') (cps ''$5''),
                            plain_card (cps ''Cup'') (cps ''$5'')]))]"
  let ?T = "store_site [(cps ''https://s.example/products/mug.js'',
                   payload (PDict [(''variants'', PList [priced (PInt 500)])]))]"
  let ?C = "Elem ''li'' [(''class'', cps ''product'')] []"
  have w: "scrape_woocommerce ?W (cps ''https://shop.example/shop/'') None =
     Inr ([\<lparr>category = cps ''product'', product_name = cps ''Mug'', price = Some (Finite 5),
             url = cps ''https://shop.example/p/1'', image = PStr []\<rparr>], [])"
    by (simp add: woo_one_card parse_price_examples strip_examples)
  note g = generic_two_cards
  note t = store_no_title
  note c = bare_card_no_title(1)
  from w row_names [where env = ?W and shop_url = "cps ''https://shop.example/shop/''"
      and max_pages = None and skipped = "[]"
      and rows = "[\<lparr>category = cps ''product'', product_name = cps ''Mug'', price = Some (Finite 5),
             url = cps ''https://shop.example/p/1'', image = PStr []\<rparr>]"]
  have 1: "list_all (\<lambda>r. \<exists>u resp crd n. http_get ?W u = Inr resp \<and>
        crd \<in> set (css_product (as_lxml resp)) \<and> select_one css_title crd = Some n \<and>
        product_name r = get_text_strip n)
     [\<lparr>category = cps ''product'', product_name = cps ''Mug'', price = Some (Finite 5),
        url = cps ''https://shop.example/p/1'', image = PStr []\<rparr>]"
    by blast
  from c row_names [where env = "example_env []" and shop_url = "[]" and crd = ?C
      and sn = css_title and cur = "[]" and sp = css_price and sc = None and si = None]
  have 2: "woo_row_of (example_env []) [] ?C = None"
    and 4: "generic_card (example_env []) [] css_title css_price None None ?C = Inr None"
    by blast+
  from g row_names [where env = ?G and page_url = "cps ''https://shop.example/list''"
      and sel_prod = css_product and sn = css_title and sp = css_price and sc = None and si = None
      and rows' = "[\<lparr>category = cps ''Uncategorised'', product_name = cps ''Mug'', price = Some (Finite 5),
        url = cps ''https://shop.example/p/1'', image = PStr []\<rparr>,
      \<lparr>category = cps ''Uncategorised'', product_name = cps ''Cup'', price = Some (Finite 5),
        url = cps ''https://shop.example/p/1'', image = PStr []\<rparr>]"]
  have 3: "list_all (\<lambda>r. \<exists>resp crd n.
        http_get ?G (cps ''https://shop.example/list'') = Inr resp \<and>
        crd \<in> set (css_product (as_lxml resp)) \<and> select_one css_title crd = Some n \<and>
        product_name r = get_text_strip n)
     [\<lparr>category = cps ''Uncategorised'', product_name = cps ''Mug'', price = Some (Finite 5),
        url = cps ''https://shop.example/p/1'', image = PStr []\<rparr>,
      \<lparr>category = cps ''Uncategorised'', product_name = cps ''Cup'', price = Some (Finite 5),
        url = cps ''https://shop.example/p/1'', image = PStr []\<rparr>]"
    by blast
  from t row_names [where env = ?T and store_url = "cps ''https://s.example''"
      and rows'' = "[\<lparr>category = cps ''Uncategorised'', product_name = [], price = Some (Finite 5),
        url = cps ''https://s.example/products/mug'', image = PStr []\<rparr>]"]
  have 5: "list_all (\<lambda>r. \<exists>h d t. fetch_payload ?T (cps ''https://s.example'') h = Inr d \<and>
        dict_get d ''title'' (PStr []) = Inr (PStr t) \<and> product_name r = strip t)
     [\<lparr>category = cps ''Uncategorised'', product_name = [], price = Some (Finite 5),
        url = cps ''https://s.example/products/mug'', image = PStr []\<rparr>]"
    by blast
  from 1 2 3 4 5 show ?thesis by blast
qed

subsection \<open>Categories of rows\<close>

lemma woo_rows_category:
  assumes "scrape_woocommerce env shop_url max_pages = Inr (rows, skipped)"
  shows "list_all (\<lambda>r. category r \<noteq> [] \<and>
           (\<exists>u resp crd. http_get env u = Inr resp \<and> crd \<in> set (css_product (as_lxml resp)) \<and>
              (\<exists>ts. classes crd = Some ts \<and> cps ''product'' \<in> set ts) \<and>
              woo_category crd = Inr (category r))) rows"
proof (rule iffD2 [OF list_all_iff], rule ballI)
  fix r assume "r \<in> set rows"
  from woo_row_provenance [OF assms this] obtain u resp crd
    where g: "http_get env u = Inr resp" and m: "crd \<in> set (css_product (as_lxml resp))"
      and c: "woo_card env shop_url crd = Inr (Some r)"
    by blast
  from woo_card_SomeD [OF c] have wc: "woo_category crd = Inr (category r)" by blast
  from woo_category_nonempty [OF m wc] have ne: "category r \<noteq> []" .
  from m have cl: "\<exists>ts. classes crd = Some ts \<and> cps ''product'' \<in> set ts"
    by (auto simp: css_product_def css_def split: option.splits)
  from g m wc ne cl
  show "category r \<noteq> [] \<and>
           (\<exists>u resp crd. http_get env u = Inr resp \<and> crd \<in> set (css_product (as_lxml resp)) \<and>
              (\<exists>ts. classes crd = Some ts \<and> cps ''product'' \<in> set ts) \<and>
              woo_category crd = Inr (category r))"
    by blast
qed

lemma shopify_row_no_type:
  assumes "map_of kvs ''type'' = None" and "shopify_row env store_url handle (PDict kvs) = Inr r"
  shows "category r = cps ''Uncategorised''"
  using assms
  by (auto simp: shopify_row_def dict_get_def str_strip_def strip_examples split: sum.splits)

lemma generic_card_no_category:
  assumes "sc = None \<or> (\<exists>s. sc = Some s \<and> select_one s crd = None)"
    and "generic_card env cur sn sp sc si crd = Inr (Some r)"
  shows "category r = cps ''Uncategorised''"
  using assms(1) generic_card_SomeD [OF assms(2)]
  by auto

lemma sentinel_not_empty: "cps ''Uncategorised'' \<noteq> []"
  by (simp add: cps_def)

text \<open>
  C6. When nothing tells the category, the category of the emitted row is the sentinel
  \<open>Uncategorised\<close> and never the empty string. In the Sitemap/API adapter this is the
  row of a payload with no \<open>type\<close> field, in the Generic adapter the row of a card for
  which no category selector is given or the selector finds nothing. In the Woo-style
  adapter the case does not arise: a card is an element selected by \<open>li.product\<close>, so it
  has the class token \<open>product\<close>, and the category of its row, taken from the data
  attribute or else from the first class token, is never empty.
\<close>

theorem category_defaults:
  "(scrape_woocommerce env shop_url max_pages = Inr (rows, skipped) \<longrightarrow>
      list_all (\<lambda>r. category r \<noteq> [] \<and>
           (\<exists>u resp crd. http_get env u = Inr resp \<and> crd \<in> set (css_product (as_lxml resp)) \<and>
              (\<exists>ts. classes crd = Some ts \<and> cps ''product'' \<in> set ts) \<and>
              woo_category crd = Inr (category r))) rows) \<and>
   (map_of kvs ''type'' = None \<and> shopify_row env store_url handle (PDict kvs) = Inr r \<longrightarrow>
      category r = cps ''Uncategorised'') \<and>
   ((sc = None \<or> (\<exists>s. sc = Some s \<and> select_one s crd = None)) \<and>
    generic_card env cur sn sp sc si crd = Inr (Some r') \<longrightarrow>
      category r' = cps ''Uncategorised'') \<and>
   cps ''Uncategorised'' \<noteq> []"
  using woo_rows_category [of env shop_url max_pages rows skipped]
    shopify_row_no_type [of kvs env store_url handle r]
    generic_card_no_category [of sc crd env cur sn sp si r']
    sentinel_not_empty
  by blast


theorem category_defaults_witness:
  "list_all (\<lambda>r. category r \<noteq> [] \<and>
       (\<exists>u resp crd.
          http_get (example_env [(cps ''https://shop.example/shop/'',
            markup (document [product_card (cps ''https://shop.example/p/1'') (cps ''Mug'') (cps ''$5'')]))]) u
            = Inr resp \<and>
          crd \<in> set (css_product (as_lxml resp)) \<and>
          (\<exists>ts. classes crd = Some ts \<and> cps ''product'' \<in> set ts) \<and>
          woo_category crd = Inr (category r)))
     [\<lparr>category = cps ''product'', product_name = cps ''Mug'', price = Some (Finite 5),
        url = cps ''https://shop.example/p/1'', image = PStr []\<rparr>] \<and>
   map_of [(''title'', PStr (cps ''Mug'')), (''variants'', PList [])] ''type'' = None \<and>
   shopify_row (example_env []) (cps ''https://s.example'') (cps ''mug'')
     (PDict [(''title'', PStr (cps ''Mug'')), (''variants'', PList [])]) =
     Inr \<lparr>category = cps ''Uncategorised'', product_name = cps ''Mug'', price = None,
          url = urljoin (example_env []) (cps ''https://s.example'') (cps ''/products/'' @ cps ''mug''),
          image = PStr []\<rparr> \<and>
   generic_card (example_env []) (cps ''https://shop.example/list'') css_title css_price None None
     (product_card (cps ''https://shop.example/p/1'') (cps ''Mug'') (cps ''$5'')) =
     Inr (Some \<lparr>category = cps ''Uncategorised'', product_name = cps ''Mug'', price = Some (Finite 5),
                url = cps ''https://shop.example/p/1'', image = PStr []\<rparr>) \<and>
   category \<lparr>category = cps ''Uncategorised'', product_name = cps ''Mug'', price = None,
          url = urljoin (example_env []) (cps ''https://s.example'') (cps ''/products/'' @ cps ''mug''),
          image = PStr []\<rparr> = cps ''Uncategorised'' \<and>
   category \<lparr>category = cps ''Uncategorised'', product_name = cps ''Mug'', price = Some (Finite 5),
                url = cps ''https://shop.example/p/1'', image = PStr []\<rparr> = cps ''Uncategorised''"
proof -
  let ?W = "example_env [(cps ''https://shop.example/shop/'',
          markup (document [product_card (cps ''https://shop.example/p/1'') (cps ''Mug'') (cps ''$5'')]))]"
  let ?kvs = "[(''title'', PStr (cps ''Mug'')), (''variants'', PList [])]"
  let ?R3 = "\<lparr>category = cps ''Uncategorised'', product_name = cps ''Mug'', price = None,
          url = urljoin (example_env []) (cps ''https://s.example'') (cps ''/products/'' @ cps ''mug''),
          image = PStr []\<rparr>"
  let ?R4 = "\<lparr>category = cps ''Uncategorised'', product_name = cps ''Mug'', price = Some (Finite 5),
                url = cps ''https://shop.example/p/1'', image = PStr []\<rparr>"
  have w: "scrape_woocommerce ?W (cps ''https://shop.example/shop/'') None =
     Inr ([\<lparr>category = cps ''product'', product_name = cps ''Mug'', price = Some (Finite 5),
             url = cps ''https://shop.example/p/1'', image = PStr []\<rparr>], [])"
    by (simp add: woo_one_card parse_price_examples strip_examples)
  have k: "map_of ?kvs ''type'' = None" by simp
  have s: "shopify_row (example_env []) (cps ''https://s.example'') (cps ''mug'') (PDict ?kvs) = Inr ?R3"
    by (rule shopify_row_no_variants_example)
  have g: "generic_card (example_env []) (cps ''https://shop.example/list'') css_title css_price
      None None (product_card (cps ''https://shop.example/p/1'') (cps ''Mug'') (cps ''$5''))
      = Inr (Some ?R4)"
    by (simp add: generic_card_product_card parse_price_examples strip_examples example_env_sel
        example_urljoin_absolute)
  from w category_defaults [where env = ?W and shop_url = "cps ''https://shop.example/shop/''"
      and max_pages = None and skipped = "[]"
      and rows = "[\<lparr>category = cps ''product'', product_name = cps ''Mug'', price = Some (Finite 5),
             url = cps ''https://shop.example/p/1'', image = PStr []\<rparr>]"]
  have 1: "list_all (\<lambda>r. category r \<noteq> [] \<and>
       (\<exists>u resp crd. http_get ?W u = Inr resp \<and>
          crd \<in> set (css_product (as_lxml resp)) \<and>
          (\<exists>ts. classes crd = Some ts \<and> cps ''product'' \<in> set ts) \<and>
          woo_category crd = Inr (category r)))
     [\<lparr>category = cps ''product'', product_name = cps ''Mug'', price = Some (Finite 5),
        url = cps ''https://shop.example/p/1'', image = PStr []\<rparr>]"
    by blast
  from k s g category_defaults [where env = "example_env []" and kvs = ?kvs
      and store_url = "cps ''https://s.example''" and handle = "cps ''mug''" and r = ?R3
      and sc = None and cur = "cps ''https://shop.example/list''" and sn = css_title
      and sp = css_price and si = None and r' = ?R4
      and crd = "product_card (cps ''https://shop.example/p/1'') (cps ''Mug'') (cps ''$5'')"]
  have 2: "category ?R3 = cps ''Uncategorised''" and 3: "category ?R4 = cps ''Uncategorised''"
    by blast+
  from 1 k s g 2 3 show ?thesis by blast
qed

subsection \<open>Failures while crawling\<close>

text \<open>
  C3. The claim: in the Sitemap/API adapter a handle whose payload fails to fetch, or
  fetches but has not the expected shape (a payload that is no object, a variant with no
  price field), is skipped alone and the crawl goes on with the other handles. The
  \<open>try\<close> of the code holds the request and the JSON decoding only. A payload that
  decodes to the list \<open>[]\<close> raises AttributeError at \<open>data.get\<close>, and a variant \<open>{}\<close>
  raises KeyError at \<open>v["price"]\<close>; both leave \<open>scrape_shopify\<close>, and the second
  product of the store, whose payload is in order, is never reached.
\<close>

theorem shopify_ill_shaped_payload_aborts:
  "scrape_shopify
     (store_site [(cps ''https://s.example/products/mug.js'', payload (PList [])),
                  (cps ''https://s.example/products/cup.js'',
                   payload (product_json (cps ''Cup'') (PList [priced (PInt 500)])))])
     (cps ''https://s.example'') = Inl AttributeError \<and>
   scrape_shopify
     (store_site [(cps ''https://s.example/products/mug.js'',
                   payload (product_json (cps ''Mug'') (PList [PDict []]))),
                  (cps ''https://s.example/products/cup.js'',
                   payload (product_json (cps ''Cup'') (PList [priced (PInt 500)])))])
     (cps ''https://s.example'') = Inl KeyError"
  by (simp add: store_not_object store_variant_without_price)

text \<open>
  C3, as the code has it. A handle whose request raises, or whose response does not
  decode as JSON, is skipped alone: the loop over the handles gives the same result as
  without that handle.
\<close>

theorem shopify_failed_payload_skipped:
  "(http_get env (urljoin env store_url (cps ''/products/'' @ h @ cps ''.js'')) = Inl e \<or>
    (\<exists>resp. http_get env (urljoin env store_url (cps ''/products/'' @ h @ cps ''.js'')) = Inr resp \<and>
            as_json resp = Inl e)) \<longrightarrow>
   handles_loop env store_url (hs1 @ h # hs2) rows = handles_loop env store_url (hs1 @ hs2) rows"
proof
  assume "http_get env (urljoin env store_url (cps ''/products/'' @ h @ cps ''.js'')) = Inl e \<or>
    (\<exists>resp. http_get env (urljoin env store_url (cps ''/products/'' @ h @ cps ''.js'')) = Inr resp \<and>
            as_json resp = Inl e)"
  then have "fetch_payload env store_url h = Inl e"
    by (auto simp: fetch_payload_def)
  then show "handles_loop env store_url (hs1 @ h # hs2) rows = handles_loop env store_url (hs1 @ hs2) rows"
    by (rule handles_loop_skip)
qed

lemma store_handles_cup:
  "handles_loop
     (store_site [(cps ''https://s.example/products/mug.js'', markup (document [])),
                  (cps ''https://s.example/products/cup.js'',
                   payload (product_json (cps ''Cup'') (PList [priced (PInt 500)])))])
     (cps ''https://s.example'') [cps ''cup''] [] =
   Inr [\<lparr>category = cps ''Uncategorised'', product_name = cps ''Cup'', price = Some (Finite 5),
          url = cps ''https://s.example/products/cup'', image = PStr []\<rparr>]"
  by (simp add: store_fetch_payload payload_urls_differ payload_sel markup_sel
      shopify_row_product_json min_price_examples strip_examples)
     (simp add: store_site_def example_env_sel store_urls)

lemma store_http_get_mug:
  "http_get (store_site payloads)
     (urljoin (store_site payloads) (cps ''https://s.example'')
        (cps ''/products/'' @ cps ''mug'' @ cps ''.js'')) =
   (case map_of payloads (cps ''https://s.example/products/mug.js'') of
      None \<Rightarrow> Inl RequestException | Some resp \<Rightarrow> Inr resp)"
  by (simp add: store_site_def example_env_sel store_urls)
     (simp add: cps_def split: option.splits)

theorem shopify_failed_payload_skipped_witness:
  "http_get
     (store_site [(cps ''https://s.example/products/mug.js'', markup (document [])),
                  (cps ''https://s.example/products/cup.js'',
                   payload (product_json (cps ''Cup'') (PList [priced (PInt 500)])))])
     (urljoin
        (store_site [(cps ''https://s.example/products/mug.js'', markup (document [])),
                  (cps ''https://s.example/products/cup.js'',
                   payload (product_json (cps ''Cup'') (PList [priced (PInt 500)])))])
        (cps ''https://s.example'') (cps ''/products/'' @ cps ''mug'' @ cps ''.js'')) =
     Inr (markup (document [])) \<and>
   as_json (markup (document [])) = Inl JSONDecodeError \<and>
   handles_loop
     (store_site [(cps ''https://s.example/products/mug.js'', markup (document [])),
                  (cps ''https://s.example/products/cup.js'',
                   payload (product_json (cps ''Cup'') (PList [priced (PInt 500)])))])
     (cps ''https://s.example'') [cps ''mug'', cps ''cup''] [] =
   Inr [\<lparr>category = cps ''Uncategorised'', product_name = cps ''Cup'', price = Some (Finite 5),
          url = cps ''https://s.example/products/cup'', image = PStr []\<rparr>]"
proof -
  let ?E = "store_site [(cps ''https://s.example/products/mug.js'', markup (document [])),
                  (cps ''https://s.example/products/cup.js'',
                   payload (product_json (cps ''Cup'') (PList [priced (PInt 500)])))]"
  let ?S = "cps ''https://s.example''"
  have g: "http_get ?E (urljoin ?E ?S (cps ''/products/'' @ cps ''mug'' @ cps ''.js''))
      = Inr (markup (document []))"
    by (simp add: store_http_get_mug)
  have j: "as_json (markup (document [])) = Inl JSONDecodeError"
    by (simp add: markup_sel)
  from g j
  have "http_get ?E (urljoin ?E ?S (cps ''/products/'' @ cps ''mug'' @ cps ''.js''))
          = Inl JSONDecodeError \<or>
        (\<exists>resp. http_get ?E (urljoin ?E ?S (cps ''/products/'' @ cps ''mug'' @ cps ''.js''))
                  = Inr resp \<and> as_json resp = Inl JSONDecodeError)"
    by blast
  with shopify_failed_payload_skipped
    [where env = ?E and store_url = ?S and h = "cps ''mug''" and e = JSONDecodeError
      and ?hs1.0 = "[]" and ?hs2.0 = "[cps ''cup'']" and rows = "[]"]
  have "handles_loop ?E ?S ([] @ cps ''mug'' # [cps ''cup'']) []
      = handles_loop ?E ?S ([] @ [cps ''cup'']) []"
    by blast
  then have "handles_loop ?E ?S [cps ''mug'', cps ''cup''] [] = handles_loop ?E ?S [cps ''cup''] []"
    by (simp only: append_Nil)
  with store_handles_cup have "handles_loop ?E ?S [cps ''mug'', cps ''cup''] [] =
    Inr [\<lparr>category = cps ''Uncategorised'', product_name = cps ''Cup'', price = Some (Finite 5),
          url = cps ''https://s.example/products/cup'', image = PStr []\<rparr>]"
    by (simp only:)
  with g j show ?thesis by blast
qed

lemma shop_page_urls:
  "next_page_url (example_env site) (cps ''https://shop.example/shop/'') 2
     = cps ''https://shop.example/shop/?paged=2''"
  "next_page_url (example_env site) (cps ''https://shop.example/shop/'') 3
     = cps ''https://shop.example/shop/?paged=3''"
  by (simp_all add: next_page_url_def example_env_sel example_urlparse_def example_urlunparse_def
      Let_def parse_qs_def parse_qsl_def plus_to_space_def urlencode_def str_of_int_def
      digits_of_nat.simps cps_def)

lemma last_page_example_pager:
  "last_page (document [product_card h t p, pager [cps ''1'', cps ''2'', cps ''3'', cps ''Next'']])
     = Inr 3"
  by (simp add: last_page_def select_one_def css_pager_def css_def document_def pager_def
      product_card_def title_h2_def price_span_def
      classes_def attr_get_def find_all_def cps_def tokens.simps is_space_def in_ranges_def
      space_ranges_def isdigit_def is_digit_def is_decimal_def decimal_of_def decimal_starts_def
      digit_only_ranges_def get_text_def int_of_text_def digits_value_def decimal_value_def)

lemma css_product_with_pager:
  "css_product (document [product_card h t p, pager [cps ''1'', cps ''2'', cps ''3'', cps ''Next'']])
     = [product_card h t p]"
  by (simp add: css_product_def card_defs pager_def)


lemma shop_urls_differ:
  "cps ''https://shop.example/shop/?paged=2'' \<noteq> cps ''https://shop.example/shop/''"
  "cps ''https://shop.example/shop/?paged=3'' \<noteq> cps ''https://shop.example/shop/''"
  "cps ''https://shop.example/shop/?paged=2'' \<noteq> cps ''https://shop.example/shop/?paged=3''"
  by (simp_all add: cps_def)

lemma three_pages_rows:
  "page_rows
     (example_env
        [(cps ''https://shop.example/shop/'',
          markup (document [product_card (cps ''https://shop.example/p/1'') (cps ''Mug'') (cps ''$5''),
                            pager [cps ''1'', cps ''2'', cps ''3'', cps ''Next'']])),
         (cps ''https://shop.example/shop/?paged=3'',
          markup (document [product_card (cps ''https://shop.example/p/2'') (cps ''Cup'') (cps ''$5'')]))])
     (cps ''https://shop.example/shop/'') 2 = []"
  "page_rows
     (example_env
        [(cps ''https://shop.example/shop/'',
          markup (document [product_card (cps ''https://shop.example/p/1'') (cps ''Mug'') (cps ''$5''),
                            pager [cps ''1'', cps ''2'', cps ''3'', cps ''Next'']])),
         (cps ''https://shop.example/shop/?paged=3'',
          markup (document [product_card (cps ''https://shop.example/p/2'') (cps ''Cup'') (cps ''$5'')]))])
     (cps ''https://shop.example/shop/'') 3 =
     [\<lparr>category = cps ''product'', product_name = cps ''Cup'', price = Some (Finite 5),
        url = cps ''https://shop.example/p/2'', image = PStr []\<rparr>]"
  by (simp_all add: page_rows_def shop_page_urls example_env_sel shop_urls_differ markup_sel
      css_product_document List.map_filter_simps woo_row_of_def woo_card_product_card
      parse_price_examples strip_examples example_urljoin_absolute)

lemma three_pages_fails:
  "page_fails
     (example_env
        [(cps ''https://shop.example/shop/'',
          markup (document [product_card (cps ''https://shop.example/p/1'') (cps ''Mug'') (cps ''$5''),
                            pager [cps ''1'', cps ''2'', cps ''3'', cps ''Next'']])),
         (cps ''https://shop.example/shop/?paged=3'',
          markup (document [product_card (cps ''https://shop.example/p/2'') (cps ''Cup'') (cps ''$5'')]))])
     (cps ''https://shop.example/shop/'') 2"
  "\<not> page_fails
     (example_env
        [(cps ''https://shop.example/shop/'',
          markup (document [product_card (cps ''https://shop.example/p/1'') (cps ''Mug'') (cps ''$5''),
                            pager [cps ''1'', cps ''2'', cps ''3'', cps ''Next'']])),
         (cps ''https://shop.example/shop/?paged=3'',
          markup (document [product_card (cps ''https://shop.example/p/2'') (cps ''Cup'') (cps ''$5'')]))])
     (cps ''https://shop.example/shop/'') 3"
  by (simp_all add: page_fails_def shop_page_urls example_env_sel shop_urls_differ)

lemma three_pages_first:
  "List.map_filter (woo_row_of env (cps ''https://shop.example/shop/''))
     (css_product (document [product_card (cps ''https://shop.example/p/1'') (cps ''Mug'') (cps ''$5''),
                            pager [cps ''1'', cps ''2'', cps ''3'', cps ''Next'']])) =
   [\<lparr>category = cps ''product'', product_name = cps ''Mug'', price = Some (Finite 5),
      url = urljoin env (cps ''https://shop.example/shop/'') (cps ''https://shop.example/p/1''),
      image = PStr []\<rparr>]"
  by (simp add: css_product_with_pager List.map_filter_simps woo_row_of_def woo_card_product_card
      parse_price_examples strip_examples)

lemma upto_2_3: "[2..3::int] = [2, 3]"
  by (simp add: upto.simps)


text \<open>
  C2. The claim: in every adapter a transport failure on any single fetch, the first page
  of a Woo-style crawl and the root sitemap of a Sitemap/API crawl included, only skips
  that page, product or handle, and never ends the crawl. The first request of each
  adapter stands outside every \<open>try\<close>: when it raises, the exception leaves the
  adapter and there is no result at all.
\<close>

theorem first_fetch_failure_aborts:
  "scrape_woocommerce (example_env []) (cps ''https://shop.example/shop/'') None
     = Inl RequestException \<and>
   scrape_shopify (example_env []) (cps ''https://s.example'') = Inl RequestException"
  by (simp add: no_site)

text \<open>
  C2, as the code has it. Once the first page of a Woo-style crawl is fetched and its
  page count read, the crawl returns a result whatever the requests for the pages from 2
  on do: the rows are those of the first page followed by those of each later page in
  order, a page whose request raises contributes no row and is reported as skipped. In
  the Sitemap/API adapter a handle whose payload request raises is skipped alone.
\<close>

theorem transport_failure_skips_page_or_handle:
  "(http_get env shop_url = Inr resp \<and> last_page (as_lxml resp) = Inr lp \<longrightarrow>
      scrape_woocommerce env shop_url max_pages =
        Inr (List.map_filter (woo_row_of env shop_url) (css_product (as_lxml resp)) @
               concat (map (page_rows env shop_url) [2..total_pages lp max_pages]),
             filter (page_fails env shop_url) [2..total_pages lp max_pages])) \<and>
   (page_fails env shop_url p \<longrightarrow> page_rows env shop_url p = []) \<and>
   (http_get env (urljoin env store_url (cps ''/products/'' @ h @ cps ''.js'')) = Inl e \<longrightarrow>
      handles_loop env store_url (hs1 @ h # hs2) rows = handles_loop env store_url (hs1 @ hs2) rows)"
proof -
  have "page_fails env shop_url p \<longrightarrow> page_rows env shop_url p = []"
    by (auto simp: page_fails_def page_rows_def split: sum.splits)
  moreover have "http_get env (urljoin env store_url (cps ''/products/'' @ h @ cps ''.js'')) = Inl e \<longrightarrow>
      handles_loop env store_url (hs1 @ h # hs2) rows = handles_loop env store_url (hs1 @ hs2) rows"
    using handles_loop_skip [of env store_url h e hs1 hs2 rows]
    by (simp add: fetch_payload_def)
  ultimately show ?thesis
    using scrape_woocommerce_eq [of env shop_url resp lp max_pages] by blast
qed

theorem transport_failure_skips_page_or_handle_witness:
  "scrape_woocommerce
     (example_env
        [(cps ''https://shop.example/shop/'',
          markup (document [product_card (cps ''https://shop.example/p/1'') (cps ''Mug'') (cps ''$5''),
                            pager [cps ''1'', cps ''2'', cps ''3'', cps ''Next'']])),
         (cps ''https://shop.example/shop/?paged=3'',
          markup (document [product_card (cps ''https://shop.example/p/2'') (cps ''Cup'') (cps ''$5'')]))])
     (cps ''https://shop.example/shop/'') None =
     Inr ([\<lparr>category = cps ''product'', product_name = cps ''Mug'', price = Some (Finite 5),
             url = cps ''https://shop.example/p/1'', image = PStr []\<rparr>,
           \<lparr>category = cps ''product'', product_name = cps ''Cup'', price = Some (Finite 5),
             url = cps ''https://shop.example/p/2'', image = PStr []\<rparr>], [2]) \<and>
   page_fails
     (example_env
        [(cps ''https://shop.example/shop/'',
          markup (document [product_card (cps ''https://shop.example/p/1'') (cps ''Mug'') (cps ''$5''),
                            pager [cps ''1'', cps ''2'', cps ''3'', cps ''Next'']])),
         (cps ''https://shop.example/shop/?paged=3'',
          markup (document [product_card (cps ''https://shop.example/p/2'') (cps ''Cup'') (cps ''$5'')]))])
     (cps ''https://shop.example/shop/'') 2 \<and>
   http_get
     (store_site [(cps ''https://s.example/products/cup.js'',
                   payload (product_json (cps ''Cup'') (PList [priced (PInt 500)])))])
     (urljoin
        (store_site [(cps ''https://s.example/products/cup.js'',
                   payload (product_json (cps ''Cup'') (PList [priced (PInt 500)])))])
        (cps ''https://s.example'') (cps ''/products/'' @ cps ''mug'' @ cps ''.js'')) =
     Inl RequestException \<and>
   handles_loop
     (store_site [(cps ''https://s.example/products/cup.js'',
                   payload (product_json (cps ''Cup'') (PList [priced (PInt 500)])))])
     (cps ''https://s.example'') [cps ''mug'', cps ''cup''] [] =
   handles_loop
     (store_site [(cps ''https://s.example/products/cup.js'',
                   payload (product_json (cps ''Cup'') (PList [priced (PInt 500)])))])
     (cps ''https://s.example'') [cps ''cup''] []"
proof -
  let ?doc = "document [product_card (cps ''https://shop.example/p/1'') (cps ''Mug'') (cps ''$5''),
                            pager [cps ''1'', cps ''2'', cps ''3'', cps ''Next'']]"
  let ?E = "example_env
        [(cps ''https://shop.example/shop/'', markup ?doc),
         (cps ''https://shop.example/shop/?paged=3'',
          markup (document [product_card (cps ''https://shop.example/p/2'') (cps ''Cup'') (cps ''$5'')]))]"
  let ?S = "cps ''https://shop.example/shop/''"
  let ?T = "store_site [(cps ''https://s.example/products/cup.js'',
                   payload (product_json (cps ''Cup'') (PList [priced (PInt 500)])))]"
  have g: "http_get ?E ?S = Inr (markup ?doc)"
    by (simp add: example_env_sel)
  have l: "last_page (as_lxml (markup ?doc)) = Inr 3"
    by (simp add: markup_sel last_page_example_pager)
  have f: "page_fails ?E ?S 2"
    by (rule three_pages_fails)
  from g l transport_failure_skips_page_or_handle
    [where env = ?E and shop_url = ?S and resp = "markup ?doc" and lp = 3 and max_pages = None
       and p = 2]
  have run: "scrape_woocommerce ?E ?S None =
        Inr (List.map_filter (woo_row_of ?E ?S) (css_product (as_lxml (markup ?doc))) @
               concat (map (page_rows ?E ?S) [2..total_pages 3 None]),
             filter (page_fails ?E ?S) [2..total_pages 3 None])"
    by blast
  have woo: "scrape_woocommerce ?E ?S None =
     Inr ([\<lparr>category = cps ''product'', product_name = cps ''Mug'', price = Some (Finite 5),
             url = cps ''https://shop.example/p/1'', image = PStr []\<rparr>,
           \<lparr>category = cps ''product'', product_name = cps ''Cup'', price = Some (Finite 5),
             url = cps ''https://shop.example/p/2'', image = PStr []\<rparr>], [2])"
    unfolding run
    by (simp add: total_pages_def truthy_int_def upto_2_3 markup_sel three_pages_first
        three_pages_rows three_pages_fails example_env_sel example_urljoin_absolute)
  have m: "http_get ?T (urljoin ?T (cps ''https://s.example'') (cps ''/products/'' @ cps ''mug'' @ cps ''.js''))
      = Inl RequestException"
    by (simp add: store_http_get_mug payload_urls_differ)
  from m transport_failure_skips_page_or_handle
    [where env = ?T and store_url = "cps ''https://s.example''" and h = "cps ''mug''"
       and e = RequestException and ?hs1.0 = "[]" and ?hs2.0 = "[cps ''cup'']" and rows = "[]"]
  have "handles_loop ?T (cps ''https://s.example'') ([] @ cps ''mug'' # [cps ''cup'']) []
      = handles_loop ?T (cps ''https://s.example'') ([] @ [cps ''cup'']) []"
    by blast
  then have skip: "handles_loop ?T (cps ''https://s.example'') [cps ''mug'', cps ''cup''] []
      = handles_loop ?T (cps ''https://s.example'') [cps ''cup''] []"
    by (simp only: append_Nil)
  from woo f m skip show ?thesis by blast
qed

subsection \<open>The number of pages\<close>

lemma last_page_superscript: "last_page (document [pager [[178]]]) = Inl ValueError"
  by (simp add: last_page_def select_one_def css_pager_def css_def document_def pager_def
      classes_def attr_get_def find_all_def cps_def tokens.simps is_space_def in_ranges_def
      space_ranges_def isdigit_def is_digit_def is_decimal_def decimal_of_def decimal_starts_def
      digit_only_ranges_def get_text_def int_of_text_def)

text \<open>
  C7. The claim: the Pagination Discoverer returns the greatest integer among the pager
  links whose text is purely numeric, ignores the other labels, and returns 1 when there
  is no pager or no numeric link. The code filters the labels with \<open>isdigit\<close> and reads
  them with \<open>int\<close>. A label such as the superscript two (U+00B2) passes the filter, but
  \<open>int\<close> rejects it: for a pager whose only link is labelled with that character the
  discoverer raises ValueError instead of returning 1, and since the Woo-style adapter
  calls it outside every \<open>try\<close>, the whole crawl ends with that exception.
\<close>

theorem last_page_raises_on_superscript_digit:
  "last_page (document [pager [[178]]]) = Inl ValueError \<and>
   scrape_woocommerce
     (example_env [(cps ''https://shop.example/shop/'', markup (document [pager [[178]]]))])
     (cps ''https://shop.example/shop/'') None = Inl ValueError"
  by (simp add: scrape_woocommerce_def example_env_def markup_def last_page_superscript)

subsection \<open>The URL of a page\<close>

text \<open>
  C8. The claim: building the URL of a page sets the \<open>paged\<close> parameter and leaves every
  other query parameter, with its value, present and unchanged. The code reads the query
  with \<open>parse_qs\<close>, which drops every parameter whose value is blank: for the base URL
  \<open>https://shop.example/?s=&post_type=product\<close> and page 2 the result is
  \<open>https://shop.example/?post_type=product&paged=2\<close>, where the parameter \<open>s\<close> is gone.
\<close>

theorem next_page_url_drops_blank_parameter:
  "next_page_url (example_env []) (cps ''https://shop.example/?s=&post_type=product'') 2 =
     cps ''https://shop.example/?post_type=product&paged=2''"
  by (simp add: next_page_url_def example_env_def example_urlparse_def example_urlunparse_def
      Let_def parse_qs_def parse_qsl_def plus_to_space_def urlencode_def str_of_int_def
      digits_of_nat.simps cps_def)

end
